theory Spec2Isabelle
  imports Complex_Main "HOL-Library.Stream"
begin

section \<open>Numbers, vectors and the random source\<close>

text \<open>
  JavaScript numbers are modelled as reals: rounding is not modelled. The one place where
  the engine can leave the finite numbers on finite inputs is a division by a lifetime or
  duration of zero, so the result of a division is a \<open>jsnum\<close>, which has JavaScript's
  \<open>Infinity\<close>, \<open>-Infinity\<close> and \<open>NaN\<close> beside the finite values. The sign of a zero
  divisor is not modelled (the divisor \<open>0\<close> is \<open>+0\<close>). Timestamps of \<open>Date.now()\<close> are
  integers (milliseconds).
\<close>

datatype jsnum = Fin real | PosInf | NegInf | NaN

fun js_div :: "real \<Rightarrow> real \<Rightarrow> jsnum" where
  "js_div a b =
     (if b \<noteq> 0 then Fin (a / b)
      else if a > 0 then PosInf
      else if a < 0 then NegInf
      else NaN)"

text \<open>\<open>x >= 1\<close>: every comparison with \<open>NaN\<close> is false.\<close>

fun js_ge1 :: "jsnum \<Rightarrow> bool" where
  "js_ge1 (Fin p) = (p \<ge> 1)"
| "js_ge1 PosInf = True"
| "js_ge1 NegInf = False"
| "js_ge1 NaN = False"

text \<open>
  Arithmetic of JavaScript on these values: \<open>NaN\<close> is contagious, \<open>Infinity - Infinity\<close>
  and \<open>0 * Infinity\<close> are \<open>NaN\<close>, and \<open>Math.max\<close> and \<open>Math.min\<close> return \<open>NaN\<close> when an
  argument is \<open>NaN\<close>.
\<close>

fun js_neg :: "jsnum \<Rightarrow> jsnum" where
  "js_neg (Fin a) = Fin (- a)"
| "js_neg PosInf = NegInf"
| "js_neg NegInf = PosInf"
| "js_neg NaN = NaN"

fun js_add :: "jsnum \<Rightarrow> jsnum \<Rightarrow> jsnum" where
  "js_add NaN y = NaN"
| "js_add x NaN = NaN"
| "js_add (Fin a) (Fin b) = Fin (a + b)"
| "js_add PosInf NegInf = NaN"
| "js_add NegInf PosInf = NaN"
| "js_add PosInf y = PosInf"
| "js_add NegInf y = NegInf"
| "js_add (Fin a) y = y"

definition js_sub :: "jsnum \<Rightarrow> jsnum \<Rightarrow> jsnum" where
  "js_sub x y = js_add x (js_neg y)"

fun js_mul :: "jsnum \<Rightarrow> jsnum \<Rightarrow> jsnum" where
  "js_mul NaN y = NaN"
| "js_mul x NaN = NaN"
| "js_mul (Fin a) (Fin b) = Fin (a * b)"
| "js_mul (Fin a) PosInf = (if a > 0 then PosInf else if a < 0 then NegInf else NaN)"
| "js_mul (Fin a) NegInf = (if a > 0 then NegInf else if a < 0 then PosInf else NaN)"
| "js_mul PosInf (Fin b) = (if b > 0 then PosInf else if b < 0 then NegInf else NaN)"
| "js_mul NegInf (Fin b) = (if b > 0 then NegInf else if b < 0 then PosInf else NaN)"
| "js_mul PosInf PosInf = PosInf"
| "js_mul PosInf NegInf = NegInf"
| "js_mul NegInf PosInf = NegInf"
| "js_mul NegInf NegInf = PosInf"

fun js_max :: "jsnum \<Rightarrow> jsnum \<Rightarrow> jsnum" where
  "js_max NaN y = NaN"
| "js_max x NaN = NaN"
| "js_max (Fin a) (Fin b) = Fin (max a b)"
| "js_max PosInf y = PosInf"
| "js_max x PosInf = PosInf"
| "js_max NegInf y = y"
| "js_max x NegInf = x"

fun js_min :: "jsnum \<Rightarrow> jsnum \<Rightarrow> jsnum" where
  "js_min NaN y = NaN"
| "js_min x NaN = NaN"
| "js_min (Fin a) (Fin b) = Fin (min a b)"
| "js_min NegInf y = NegInf"
| "js_min x NegInf = NegInf"
| "js_min PosInf y = y"
| "js_min x PosInf = x"

text \<open>
  A counter kept in a JavaScript number: \<open>n++\<close> is exact while the result is at most
  \<open>2^53\<close>; from \<open>2^53\<close> on, \<open>n + 1\<close> rounds back to \<open>n\<close>.
\<close>

definition js_incr :: "nat \<Rightarrow> nat" where
  "js_incr n = (if n < 2 ^ 53 then n + 1 else n)"

datatype Vector3 = Vector3 (vec_x: real) (vec_y: real) (vec_z: real)

definition multiplyScalar :: "Vector3 \<Rightarrow> real \<Rightarrow> Vector3" where
  "multiplyScalar v s = Vector3 (vec_x v * s) (vec_y v * s) (vec_z v * s)"

definition vec_add :: "Vector3 \<Rightarrow> Vector3 \<Rightarrow> Vector3" where
  "vec_add a b = Vector3 (vec_x a + vec_x b) (vec_y a + vec_y b) (vec_z a + vec_z b)"

definition set_y :: "Vector3 \<Rightarrow> real \<Rightarrow> Vector3" where
  "set_y v b = Vector3 (vec_x v) b (vec_z v)"

definition set_x :: "Vector3 \<Rightarrow> real \<Rightarrow> Vector3" where
  "set_x v a = Vector3 a (vec_y v) (vec_z v)"

text \<open>\<open>Vector3.normalize()\<close> of three.js: \<open>divideScalar(length() || 1)\<close>.\<close>

definition vec_length :: "Vector3 \<Rightarrow> real" where
  "vec_length v = sqrt (vec_x v * vec_x v + vec_y v * vec_y v + vec_z v * vec_z v)"

definition normalize :: "Vector3 \<Rightarrow> Vector3" where
  "normalize v =
     (let l = (if vec_length v = 0 then 1 else vec_length v)
      in Vector3 (vec_x v / l) (vec_y v / l) (vec_z v / l))"

text \<open>
  \<open>Math.random()\<close> reads the next value of a stream of draws, which is threaded through
  every function that draws. A draw of the real \<open>Math.random()\<close> lies in \<open>[0, 1)\<close>.
\<close>

type_synonym rng = "real stream"

definition Math_random :: "rng \<Rightarrow> real \<times> rng" where
  "Math_random g = (shd g, stl g)"

definition randomRange :: "real \<Rightarrow> real \<Rightarrow> rng \<Rightarrow> real \<times> rng" where
  "randomRange lo hi g = (case Math_random g of (r, g') \<Rightarrow> (r * (hi - lo) + lo, g'))"

definition randomSpread :: "real \<Rightarrow> rng \<Rightarrow> real \<times> rng" where
  "randomSpread spread g = (case Math_random g of (r, g') \<Rightarrow> ((r - 0.5) * 2 * spread, g'))"

section \<open>Configuration\<close>

text \<open>
  \<open>EXPLOSION_CONFIG.CLASSES\<close>. The chain fields exist for \<open>BOSS\<close> only; a missing
  \<open>chainExplosions\<close> is falsy, so it is \<open>False\<close> here and the other two fields are
  never read.
\<close>

record ExplosionClass =
  cls_name :: string
  particleCount :: nat
  shockwaveScale :: real
  duration :: int
  wreckagePieces :: nat
  wreckageScale :: "real list"
  cameraShake :: real
  lightIntensity :: real
  lightDistance :: real
  chainExplosions :: bool
  chainCount :: nat
  chainDelay :: int

definition SMALL :: ExplosionClass where
  "SMALL = \<lparr> cls_name = ''SMALL'', particleCount = 15, shockwaveScale = 3, duration = 800,
     wreckagePieces = 1, wreckageScale = [0.4, 0.25, 0.6], cameraShake = 0.1,
     lightIntensity = 8, lightDistance = 15,
     chainExplosions = False, chainCount = 0, chainDelay = 0 \<rparr>"

definition MEDIUM :: ExplosionClass where
  "MEDIUM = \<lparr> cls_name = ''MEDIUM'', particleCount = 30, shockwaveScale = 5, duration = 1000,
     wreckagePieces = 2, wreckageScale = [0.6, 0.35, 0.9], cameraShake = 0.25,
     lightIntensity = 15, lightDistance = 25,
     chainExplosions = False, chainCount = 0, chainDelay = 0 \<rparr>"

definition LARGE :: ExplosionClass where
  "LARGE = \<lparr> cls_name = ''LARGE'', particleCount = 50, shockwaveScale = 8, duration = 1400,
     wreckagePieces = 4, wreckageScale = [1.0, 0.5, 1.4], cameraShake = 0.5,
     lightIntensity = 25, lightDistance = 40,
     chainExplosions = False, chainCount = 0, chainDelay = 0 \<rparr>"

definition BOSS :: ExplosionClass where
  "BOSS = \<lparr> cls_name = ''BOSS'', particleCount = 100, shockwaveScale = 15, duration = 2500,
     wreckagePieces = 8, wreckageScale = [1.5, 0.8, 2.0], cameraShake = 1.0,
     lightIntensity = 50, lightDistance = 60,
     chainExplosions = True, chainCount = 5, chainDelay = 200 \<rparr>"

definition CLASSES :: "(string \<times> ExplosionClass) list" where
  "CLASSES = [(''SMALL'', SMALL), (''MEDIUM'', MEDIUM), (''LARGE'', LARGE), (''BOSS'', BOSS)]"

text \<open>
  The table is an object literal, so a lookup also finds what every object inherits from
  \<open>Object.prototype\<close>: these names. Each of them yields a function (or, for \<open>__proto__\<close>,
  the prototype object), which is truthy and has none of the configuration fields.
\<close>

definition Object_prototype_keys :: "string list" where
  "Object_prototype_keys =
     [''constructor'', ''hasOwnProperty'', ''isPrototypeOf'', ''propertyIsEnumerable'',
      ''toLocaleString'', ''toString'', ''valueOf'', ''__proto__'',
      ''__defineGetter__'', ''__defineSetter__'', ''__lookupGetter__'', ''__lookupSetter__'']"

text \<open>
  \<open>EXPLOSION_CONFIG.CLASSES[explosionClass] || EXPLOSION_CONFIG.CLASSES.MEDIUM\<close>. The
  result \<open>None\<close> stands for an inherited property: \<open>||\<close> keeps it, and every field the
  Explosion reads from it is \<open>undefined\<close>. Any other name that is not a key of the table
  falls back to \<open>MEDIUM\<close>.
\<close>

definition class_config :: "string \<Rightarrow> ExplosionClass option" where
  "class_config explosionClass =
     (case map_of CLASSES explosionClass of
        Some c \<Rightarrow> Some c
      | None \<Rightarrow> if explosionClass \<in> set Object_prototype_keys then None else Some MEDIUM)"

definition GRAVITY :: real where
  "GRAVITY = 15"

definition SMOKE_EMIT_RATE :: real where
  "SMOKE_EMIT_RATE = 0.03"

definition GROUND_Y :: real where
  "GROUND_Y = -5"

section \<open>Explosion manager\<close>

text \<open>
  \<open>useExplosionManager\<close>: the list of active explosions and the id counter
  \<open>explosionIdRef\<close>. An argument left out of \<open>triggerExplosion\<close> is \<open>None\<close> and takes
  the default of the source. A position given as a triple or as a vector is stored as a
  vector either way.
\<close>

record explosion_entry =
  e_id :: nat
  e_position :: Vector3
  e_forwardVector :: Vector3
  e_explosionClass :: string
  e_showWreckage :: bool
  e_groundY :: real

record trigger_config =
  t_position :: Vector3
  t_forwardVector :: "Vector3 option"
  t_explosionClass :: "string option"
  t_showWreckage :: "bool option"
  t_groundY :: "real option"

record Manager_state =
  explosions :: "explosion_entry list"
  explosionIdRef :: nat

definition Manager_init :: Manager_state where
  "Manager_init = \<lparr> explosions = [], explosionIdRef = 0 \<rparr>"

definition triggerExplosion :: "trigger_config \<Rightarrow> Manager_state \<Rightarrow> nat \<times> Manager_state" where
  "triggerExplosion c s =
     (let forwardVector = (case t_forwardVector c of None \<Rightarrow> Vector3 0 0 (-1) | Some v \<Rightarrow> v);
          explosionClass = (case t_explosionClass c of None \<Rightarrow> ''MEDIUM'' | Some n \<Rightarrow> n);
          showWreckage = (case t_showWreckage c of None \<Rightarrow> True | Some b \<Rightarrow> b);
          groundY = (case t_groundY c of None \<Rightarrow> GROUND_Y | Some g \<Rightarrow> g);
          ident = explosionIdRef s
      in (ident,
          \<lparr> explosions = explosions s @
               [\<lparr> e_id = ident, e_position = t_position c, e_forwardVector = forwardVector,
                  e_explosionClass = explosionClass, e_showWreckage = showWreckage,
                  e_groundY = groundY \<rparr>],
            explosionIdRef = js_incr (explosionIdRef s) \<rparr>))"

definition removeExplosion :: "nat \<Rightarrow> Manager_state \<Rightarrow> Manager_state" where
  "removeExplosion ident s = s\<lparr> explosions := filter (\<lambda>e. e_id e \<noteq> ident) (explosions s) \<rparr>"

definition clearAllExplosions :: "Manager_state \<Rightarrow> Manager_state" where
  "clearAllExplosions s = s\<lparr> explosions := [] \<rparr>"

text \<open>A sequence of Manager operations, and the ids its triggers return, in order.\<close>

datatype Manager_op = Trigger trigger_config | Remove nat | ClearAll

fun is_Trigger :: "Manager_op \<Rightarrow> bool" where
  "is_Trigger (Trigger c) = True"
| "is_Trigger (Remove i) = False"
| "is_Trigger ClearAll = False"

fun run_ops :: "Manager_op list \<Rightarrow> Manager_state \<Rightarrow> nat list \<times> Manager_state" where
  "run_ops [] s = ([], s)"
| "run_ops (Trigger c # ops) s =
     (case triggerExplosion c s of (ident, s') \<Rightarrow>
        (case run_ops ops s' of (ids, s'') \<Rightarrow> (ident # ids, s'')))"
| "run_ops (Remove i # ops) s = run_ops ops (removeExplosion i s)"
| "run_ops (ClearAll # ops) s = run_ops ops (clearAllExplosions s)"

section \<open>Particles\<close>

text \<open>
  The record an Explosion creates for each particle and hands to \<open>ExplosionParticle\<close> as
  props. \<open>p_color\<close> is \<open>None\<close> when the palette index is out of range (\<open>undefined\<close>).
\<close>

record particle_record =
  p_id :: nat
  p_direction :: Vector3
  p_speed :: real
  p_size :: real
  p_color :: "string option"
  p_lifetime :: real
  p_type :: string

text \<open>
  The mesh behind \<open>meshRef\<close>. \<open>scale.setScalar\<close> sets all three components to one value
  and a new mesh has scale \<open>(1, 1, 1)\<close>, so the model keeps the common component. The
  material is always there (the component renders it with the mesh).
\<close>

record mesh =
  m_position :: Vector3
  m_scale :: jsnum
  m_opacity :: jsnum

record ExplosionParticle_state =
  ep_startTime :: int
  ep_velocity :: Vector3
  ep_mesh :: "mesh option"

definition ExplosionParticle_mount ::
    "Vector3 \<Rightarrow> particle_record \<Rightarrow> int \<Rightarrow> ExplosionParticle_state" where
  "ExplosionParticle_mount startPosition p now =
     \<lparr> ep_startTime = now,
       ep_velocity = multiplyScalar (p_direction p) (p_speed p),
       ep_mesh = Some \<lparr> m_position = startPosition, m_scale = Fin 1, m_opacity = Fin 1 \<rparr> \<rparr>"

text \<open>
  The \<open>useFrame\<close> callback of \<open>ExplosionParticle\<close>, at time \<open>now\<close> with frame time
  \<open>delta\<close>. The second component of the result tells whether \<open>onComplete\<close> was invoked.
\<close>

definition ExplosionParticle_frame ::
    "particle_record \<Rightarrow> int \<Rightarrow> real \<Rightarrow> ExplosionParticle_state \<Rightarrow> ExplosionParticle_state \<times> bool" where
  "ExplosionParticle_frame p now delta s =
     (case ep_mesh s of
        None \<Rightarrow> (s, False)
      | Some m \<Rightarrow>
          (let elapsed = real_of_int (now - ep_startTime s) / 1000;
               progress = js_div elapsed (p_lifetime p)
           in if js_ge1 progress then (s, True)
              else
                (let pos = vec_add (m_position m) (multiplyScalar (ep_velocity s) delta);
                     v = ep_velocity s;
                     v' = (if p_type p = ''fire'' then
                             (let v1 = multiplyScalar v 0.96 in set_y v1 (vec_y v1 + delta * 2))
                           else if p_type p = ''spark'' then
                             (let v1 = multiplyScalar v 0.98 in set_y v1 (vec_y v1 - delta * 15))
                           else if p_type p = ''smoke'' then
                             (let v1 = multiplyScalar v 0.92 in set_y v1 (vec_y v1 + delta * 1))
                           else v);
                     scale = js_mul (Fin (p_size p)) (js_sub (Fin 1) (js_mul progress (Fin 0.7)))
                 in (\<lparr> ep_startTime = ep_startTime s,
                       ep_velocity = v',
                       ep_mesh = Some \<lparr> m_position = pos,
                                        m_scale = js_max (Fin 0.01) scale,
                                        m_opacity = js_max (Fin 0) (js_sub (Fin 1) progress) \<rparr> \<rparr>,
                     False))))"

text \<open>
  \<open>SmokeParticle\<close>, the smoke trail of a wreckage piece. Its lifetime is drawn by
  \<open>randomRange(0.8, 1.5)\<close> in the component body; the frame callback takes the value of
  the latest render as \<open>lifetime\<close>.
\<close>

record smoke_record =
  sm_id :: real
  sm_position :: Vector3
  sm_velocity :: Vector3
  sm_size :: real

record SmokeParticle_state =
  sp_startTime :: int
  sp_vel :: Vector3
  sp_mesh :: "mesh option"

definition SmokeParticle_mount :: "smoke_record \<Rightarrow> int \<Rightarrow> SmokeParticle_state" where
  "SmokeParticle_mount r now =
     \<lparr> sp_startTime = now,
       sp_vel = sm_velocity r,
       sp_mesh = Some \<lparr> m_position = sm_position r, m_scale = Fin 1, m_opacity = Fin 0.6 \<rparr> \<rparr>"

definition SmokeParticle_frame ::
    "real \<Rightarrow> real \<Rightarrow> int \<Rightarrow> real \<Rightarrow> SmokeParticle_state \<Rightarrow> SmokeParticle_state \<times> bool" where
  "SmokeParticle_frame psize lifetime now delta s =
     (case sp_mesh s of
        None \<Rightarrow> (s, False)
      | Some m \<Rightarrow>
          (let elapsed = real_of_int (now - sp_startTime s) / 1000;
               progress = js_div elapsed lifetime
           in if js_ge1 progress then (s, True)
              else
                (let pos = vec_add (m_position m) (multiplyScalar (sp_vel s) delta);
                     v1 = multiplyScalar (sp_vel s) 0.95;
                     v' = set_y v1 (vec_y v1 + delta * 0.8);
                     growPhase = js_min (js_mul progress (Fin 3)) (Fin 1);
                     shrinkPhase = js_max (Fin 0) (js_mul (js_sub progress (Fin 0.5)) (Fin 2));
                     scale = js_mul (js_mul (Fin psize) (js_add (Fin 1) (js_mul growPhase (Fin 0.5))))
                                    (js_sub (Fin 1) (js_mul shrinkPhase (Fin 0.8)))
                 in (\<lparr> sp_startTime = sp_startTime s,
                       sp_vel = v',
                       sp_mesh = Some \<lparr> m_position = pos,
                                        m_scale = js_max (Fin 0.01) scale,
                                        m_opacity = js_mul (Fin 0.6) (js_sub (Fin 1) progress) \<rparr> \<rparr>,
                     False))))"

section \<open>Falling wreckage\<close>

definition cross :: "Vector3 \<Rightarrow> Vector3 \<Rightarrow> Vector3" where
  "cross a b = Vector3 (vec_y a * vec_z b - vec_z a * vec_y b)
                       (vec_z a * vec_x b - vec_x a * vec_z b)
                       (vec_x a * vec_y b - vec_y a * vec_x b)"

definition SPREAD_ANGLE :: real where
  "SPREAD_ANGLE = pi / 6"

definition createRandomDirection :: "Vector3 \<Rightarrow> real \<Rightarrow> rng \<Rightarrow> Vector3 \<times> rng" where
  "createRandomDirection forwardVector spreadAngle g =
     (let dir = normalize forwardVector;
          perpX = normalize (cross (Vector3 1 0 0) dir);
          perpY = normalize (cross dir perpX)
      in case randomSpread spreadAngle g of (angleX, g1) \<Rightarrow>
         case randomSpread spreadAngle g1 of (angleY, g2) \<Rightarrow>
           (normalize (vec_add (vec_add dir (multiplyScalar perpX (sin angleX)))
                               (multiplyScalar perpY (sin angleY))),
            g2))"

text \<open>
  The group behind \<open>groupRef\<close> (position and Euler rotation, both in the frame of the
  parent object), the \<open>physics\<close> ref and the two pieces of React state.
\<close>

record group3d =
  g_position :: Vector3
  g_rotation :: Vector3

record physics =
  ph_velocity :: Vector3
  ph_rotationSpeed :: Vector3
  ph_lastSmokeTime :: int

record FallingWreckage_state =
  fw_group :: "group3d option"
  fw_smokeParticles :: "smoke_record list"
  fw_hasLanded :: bool
  fw_physics :: physics

definition FallingWreckage_mount :: "Vector3 \<Rightarrow> Vector3 \<Rightarrow> rng \<Rightarrow> FallingWreckage_state \<times> rng" where
  "FallingWreckage_mount startPosition forwardVector g =
     (case createRandomDirection forwardVector SPREAD_ANGLE g of (dir, g1) \<Rightarrow>
      case randomRange 3 8 g1 of (speed, g2) \<Rightarrow>
      case randomRange 2 8 g2 of (rx, g3) \<Rightarrow>
      case randomRange 2 8 g3 of (ry, g4) \<Rightarrow>
      case randomRange 2 8 g4 of (rz, g5) \<Rightarrow>
        (\<lparr> fw_group = Some \<lparr> g_position = startPosition, g_rotation = Vector3 0 0 0 \<rparr>,
           fw_smokeParticles = [],
           fw_hasLanded = False,
           fw_physics = \<lparr> ph_velocity = multiplyScalar dir speed,
                          ph_rotationSpeed = Vector3 rx ry rz,
                          ph_lastSmokeTime = 0 \<rparr> \<rparr>,
         g5))"

text \<open>
  The \<open>useFrame\<close> callback of \<open>FallingWreckage\<close>. The second component of the result is
  the argument of \<open>onGroundHit\<close> when the callback was invoked in this frame.
\<close>

definition FallingWreckage_frame ::
    "real \<Rightarrow> int \<Rightarrow> real \<Rightarrow> rng \<Rightarrow> FallingWreckage_state
       \<Rightarrow> FallingWreckage_state \<times> Vector3 option \<times> rng" where
  "FallingWreckage_frame groundY now delta g s =
     (case fw_group s of
        None \<Rightarrow> (s, None, g)
      | Some grp \<Rightarrow>
          if fw_hasLanded s then (s, None, g)
          else
            (let phys = fw_physics s;
                 v = set_y (ph_velocity phys) (vec_y (ph_velocity phys) - GRAVITY * delta);
                 pos = vec_add (g_position grp) (multiplyScalar v delta);
                 rot = Vector3 (vec_x (g_rotation grp) + vec_x (ph_rotationSpeed phys) * delta)
                               (vec_y (g_rotation grp) + vec_y (ph_rotationSpeed phys) * delta)
                               (vec_z (g_rotation grp) + vec_z (ph_rotationSpeed phys) * delta);
                 emit = (real_of_int (now - ph_lastSmokeTime phys) > SMOKE_EMIT_RATE * 1000);
                 landed = (vec_y pos \<le> groundY)
             in case (if emit then
                        (case randomSpread 1 g of (sx, g1) \<Rightarrow>
                         case randomRange 0.5 1.5 g1 of (sy, g2) \<Rightarrow>
                         case randomSpread 1 g2 of (sz, g3) \<Rightarrow>
                         case Math_random g3 of (r, g4) \<Rightarrow>
                         case randomRange 0.3 0.6 g4 of (psize, g5) \<Rightarrow>
                           (fw_smokeParticles s @
                              [\<lparr> sm_id = real_of_int now + r, sm_position = pos,
                                 sm_velocity = Vector3 sx sy sz, sm_size = psize \<rparr>],
                            g5))
                      else (fw_smokeParticles s, g))
                of (smoke, g') \<Rightarrow>
                  (\<lparr> fw_group = Some \<lparr> g_position = pos, g_rotation = rot \<rparr>,
                     fw_smokeParticles = smoke,
                     fw_hasLanded = landed,
                     fw_physics = \<lparr> ph_velocity = v,
                                    ph_rotationSpeed = ph_rotationSpeed phys,
                                    ph_lastSmokeTime = (if emit then now else ph_lastSmokeTime phys) \<rparr> \<rparr>,
                   (if landed then Some pos else None),
                   g')))"

section \<open>Explosion\<close>

record shockwave_record =
  sw_id :: nat
  sw_delay :: int
  sw_scale :: jsnum

record wreckage_record =
  w_id :: nat
  w_scale :: "real list"

record chain_record =
  c_id :: nat
  c_delay :: int
  c_offset :: Vector3

record secondary_record =
  se_id :: real
  se_position :: Vector3

record Explosion_props =
  x_position :: Vector3
  x_forwardVector :: Vector3
  x_explosionClass :: string
  x_showWreckage :: bool
  x_groundY :: real

record Explosion_state =
  particles :: "particle_record list"
  shockwaves :: "shockwave_record list"
  wreckage :: "wreckage_record list"
  flash :: bool
  secondaryExplosions :: "secondary_record list"
  chainExplosions_state :: "chain_record list"
  isComplete :: bool
  startTime :: int
  particleIdCounter :: nat

text \<open>The initial values of the state hooks and refs, at time \<open>now\<close>.\<close>

definition Explosion_mount :: "int \<Rightarrow> Explosion_state" where
  "Explosion_mount now =
     \<lparr> particles = [], shockwaves = [], wreckage = [], flash = True,
       secondaryExplosions = [], chainExplosions_state = [], isComplete = False,
       startTime = now, particleIdCounter = 0 \<rparr>"

definition COLORS_CORE :: "string list" where
  "COLORS_CORE = [''#ffffff'', ''#ffffa0'', ''#ffff00'']"

definition COLORS_FIRE :: "string list" where
  "COLORS_FIRE = [''#ff8800'', ''#ff4400'', ''#ff2200'']"

definition COLORS_SMOKE :: "string list" where
  "COLORS_SMOKE = [''#444444'', ''#333333'', ''#222222'', ''#111111'']"

definition COLORS_SPARK :: "string list" where
  "COLORS_SPARK = [''#ffff88'', ''#ffaa44'', ''#ff6600'']"

text \<open>\<open>colorSet[Math.floor(r * colorSet.length)]\<close>: \<open>undefined\<close> out of range.\<close>

definition pick_color :: "string list \<Rightarrow> real \<Rightarrow> string option" where
  "pick_color colorSet r =
     (let k = \<lfloor>r * real (length colorSet)\<rfloor>
      in if 0 \<le> k \<and> k < int (length colorSet) then Some (colorSet ! nat k) else None)"

text \<open>
  The type of the particle of index \<open>i\<close> in a batch of \<open>particleCount\<close>. For the
  counts of the four classes (15, 30, 50, 100) the products with 0.2, 0.6 and 0.8 are
  whole numbers in double arithmetic as well, so the comparisons agree with the reals.
\<close>

definition particle_type :: "nat \<Rightarrow> nat \<Rightarrow> string" where
  "particle_type i count =
     (if real i < real count * 0.2 then ''core''
      else if real i < real count * 0.6 then ''fire''
      else if real i < real count * 0.8 then ''spark''
      else ''smoke'')"

text \<open>The body of the particle loop: the record of index \<open>i\<close>, seven draws.\<close>

definition createParticle :: "nat \<Rightarrow> nat \<Rightarrow> nat \<Rightarrow> rng \<Rightarrow> particle_record \<times> rng" where
  "createParticle count i ident g =
     (let type = particle_type i count;
          colorSet = (if type = ''core'' then COLORS_CORE
                      else if type = ''fire'' then COLORS_FIRE
                      else if type = ''spark'' then COLORS_SPARK
                      else COLORS_SMOKE)
      in case randomSpread 1 g of (dx, g1) \<Rightarrow>
         case randomSpread 1 g1 of (dy, g2) \<Rightarrow>
         case randomSpread 1 g2 of (dz, g3) \<Rightarrow>
         case randomRange 8 25 g3 of (speed, g4) \<Rightarrow>
         case randomRange 0.1 0.6 g4 of (psize, g5) \<Rightarrow>
         case Math_random g5 of (c, g6) \<Rightarrow>
         case randomRange 0.3 1.2 g6 of (lifetime, g7) \<Rightarrow>
           (\<lparr> p_id = ident,
              p_direction = normalize (Vector3 dx dy dz),
              p_speed = speed * (if type = ''core'' then 1.5 else if type = ''smoke'' then 0.3 else 1),
              p_size = psize * (if type = ''core'' then 0.5 else if type = ''smoke'' then 2 else 1),
              p_color = pick_color colorSet c,
              p_lifetime = lifetime * (if type = ''smoke'' then 2 else 1),
              p_type = type \<rparr>,
            g7))"

text \<open>
  \<open>for (let i = 0; i < config.particleCount; i++)\<close>, from index \<open>i\<close> on, with the id
  counter \<open>particleIdCounter\<close> and the records pushed so far.
\<close>

function createParticles_loop ::
    "nat \<Rightarrow> nat \<Rightarrow> nat \<Rightarrow> rng \<Rightarrow> particle_record list \<Rightarrow> particle_record list \<times> nat \<times> rng" where
  "createParticles_loop count i ident g acc =
     (if i < count then
        (case createParticle count i ident g of (p, g') \<Rightarrow>
           createParticles_loop count (Suc i) (js_incr ident) g' (acc @ [p]))
      else (acc, ident, g))"
  by pat_completeness auto
termination
  by (relation "measure (\<lambda>(count, i, ident, g, acc). count - i)") auto

definition RING_COUNT :: nat where
  "RING_COUNT = 2"

text \<open>
  The shockwave loop, for the value of \<open>config.shockwaveScale\<close> (\<open>undefined\<close> on an
  inherited property, which makes the product \<open>NaN\<close>).
\<close>

definition createShockwaves :: "jsnum \<Rightarrow> shockwave_record list" where
  "createShockwaves shockwaveScale_value =
     map (\<lambda>i. \<lparr> sw_id = i, sw_delay = int i * 80,
                sw_scale = js_mul shockwaveScale_value (Fin (1 - real i * 0.2)) \<rparr>)
       [0 ..< RING_COUNT]"

definition scaleVariation :: real where
  "scaleVariation = 0.3"

text \<open>
  \<open>config.wreckageScale.map(s => s * randomRange(1 - scaleVariation, 1 + scaleVariation))\<close>:
  the callback of \<open>map\<close> runs once for each element, and draws each time.
\<close>

fun scale_map :: "real list \<Rightarrow> rng \<Rightarrow> real list \<times> rng" where
  "scale_map [] g = ([], g)"
| "scale_map (s # ss) g =
     (case randomRange (1 - scaleVariation) (1 + scaleVariation) g of (f, g1) \<Rightarrow>
      case scale_map ss g1 of (rest, g2) \<Rightarrow> (s * f # rest, g2))"

function createWreckage_loop ::
    "ExplosionClass \<Rightarrow> nat \<Rightarrow> rng \<Rightarrow> wreckage_record list \<Rightarrow> wreckage_record list \<times> rng" where
  "createWreckage_loop config i g acc =
     (if i < wreckagePieces config then
        (case scale_map (wreckageScale config) g of (sc, g') \<Rightarrow>
           createWreckage_loop config (Suc i) g' (acc @ [\<lparr> w_id = i, w_scale = sc \<rparr>]))
      else (acc, g))"
  by pat_completeness auto
termination
  by (relation "measure (\<lambda>(config, i, g, acc). wreckagePieces config - i)") auto

function createChains_loop ::
    "ExplosionClass \<Rightarrow> nat \<Rightarrow> rng \<Rightarrow> chain_record list \<Rightarrow> chain_record list \<times> rng" where
  "createChains_loop config i g acc =
     (if i < chainCount config then
        (case randomSpread 3 g of (ox, g1) \<Rightarrow>
         case randomSpread 2 g1 of (oy, g2) \<Rightarrow>
         case randomSpread 3 g2 of (oz, g3) \<Rightarrow>
           createChains_loop config (Suc i) g3
             (acc @ [\<lparr> c_id = i, c_delay = (int i + 1) * chainDelay config,
                       c_offset = Vector3 ox oy oz \<rparr>]))
      else (acc, g))"
  by pat_completeness auto
termination
  by (relation "measure (\<lambda>(config, i, g, acc). chainCount config - i)") auto

text \<open>
  The initialisation effect of \<open>Explosion\<close>: particles, shockwaves, wreckage (only with
  \<open>showWreckage\<close>) and chain explosions (only with \<open>chainExplosions\<close>). On an inherited
  property the counts are \<open>undefined\<close>: \<open>i < undefined\<close> is false, so both loops push
  nothing and draw nothing, and \<open>chainExplosions\<close> is falsy.
\<close>

definition Explosion_init :: "Explosion_props \<Rightarrow> rng \<Rightarrow> Explosion_state \<Rightarrow> Explosion_state \<times> rng" where
  "Explosion_init props g s =
     (case class_config (x_explosionClass props) of
        None \<Rightarrow>
          (s\<lparr> particles := [],
              shockwaves := createShockwaves NaN,
              wreckage := (if x_showWreckage props then [] else wreckage s) \<rparr>,
           g)
      | Some config \<Rightarrow>
         (case createParticles_loop (particleCount config) 0 (particleIdCounter s) g [] of
           (newParticles, ident, g1) \<Rightarrow>
         case (if x_showWreckage props
               then createWreckage_loop config 0 g1 []
               else (wreckage s, g1)) of
           (newWreckage, g2) \<Rightarrow>
         case (if chainExplosions config
               then createChains_loop config 0 g2 []
               else (chainExplosions_state s, g2)) of
           (newChains, g3) \<Rightarrow>
           (s\<lparr> particles := newParticles,
               particleIdCounter := ident,
               shockwaves := createShockwaves (Fin (shockwaveScale config)),
               wreckage := newWreckage,
               chainExplosions_state := newChains \<rparr>,
            g3)))"

text \<open>
  The \<open>useFrame\<close> callback of \<open>Explosion\<close> at time \<open>now\<close>. In the argument,
  \<open>isComplete\<close> is the constant the callback sees, the value of the last render; in the
  result it is the value handed to \<open>setIsComplete\<close>. The second component of the result
  tells whether \<open>onComplete\<close> was invoked. On an inherited property \<open>config.duration + 3000\<close>
  is \<open>NaN\<close> and the comparison is false.
\<close>

definition Explosion_frame :: "Explosion_props \<Rightarrow> int \<Rightarrow> Explosion_state \<Rightarrow> Explosion_state \<times> bool" where
  "Explosion_frame props now s =
     (case class_config (x_explosionClass props) of
        None \<Rightarrow> (s, False)
      | Some config \<Rightarrow>
          (let elapsed = now - startTime s
           in if elapsed > duration config + 3000 \<and> \<not> isComplete s
              then (s\<lparr> isComplete := True \<rparr>, True)
              else (s, False)))"

text \<open>
  What happens to an Explosion between its creation and its removal: a frame, a render by
  React, or a callback from one of its children (\<open>removeParticle\<close>, \<open>removeShockwave\<close>,
  the end of the flash, \<open>handleWreckageGroundHit\<close> with the \<open>Date.now()\<close> and the draw of
  its id, and the completion of a secondary explosion).
\<close>

datatype Explosion_event =
    Frame int
  | Render
  | ParticleDone nat
  | ShockwaveDone nat
  | FlashDone
  | WreckageGroundHit Vector3 int real
  | SecondaryDone real

text \<open>
  \<open>setIsComplete(true)\<close> queues an update: the frame callback keeps the \<open>isComplete\<close> of
  the last render until React renders again. A step works on the state as the callbacks
  see it, paired with the queued value of \<open>isComplete\<close>; a render makes the queued value
  the visible one. The list updates are functional (\<open>prev => ...\<close>) and apply in order.
\<close>

fun Explosion_step ::
    "Explosion_props \<Rightarrow> Explosion_event \<Rightarrow> Explosion_state \<times> bool
       \<Rightarrow> (Explosion_state \<times> bool) \<times> bool" where
  "Explosion_step props (Frame now) (s, queued) =
     (case Explosion_frame props now s of (s', fired) \<Rightarrow>
        ((s'\<lparr> isComplete := isComplete s \<rparr>, queued \<or> isComplete s'), fired))"
| "Explosion_step props Render (s, queued) = ((s\<lparr> isComplete := queued \<rparr>, queued), False)"
| "Explosion_step props (ParticleDone i) (s, queued) =
     ((s\<lparr> particles := filter (\<lambda>p. p_id p \<noteq> i) (particles s) \<rparr>, queued), False)"
| "Explosion_step props (ShockwaveDone i) (s, queued) =
     ((s\<lparr> shockwaves := filter (\<lambda>w. sw_id w \<noteq> i) (shockwaves s) \<rparr>, queued), False)"
| "Explosion_step props FlashDone (s, queued) = ((s\<lparr> flash := False \<rparr>, queued), False)"
| "Explosion_step props (WreckageGroundHit hitPosition now r) (s, queued) =
     ((s\<lparr> secondaryExplosions := secondaryExplosions s @
           [\<lparr> se_id = real_of_int now + r, se_position = hitPosition \<rparr>] \<rparr>, queued), False)"
| "Explosion_step props (SecondaryDone i) (s, queued) =
     ((s\<lparr> secondaryExplosions := filter (\<lambda>e. se_id e \<noteq> i) (secondaryExplosions s) \<rparr>, queued),
      False)"

text \<open>A run of events: the final state and the number of invocations of \<open>onComplete\<close>.\<close>

fun Explosion_run ::
    "Explosion_props \<Rightarrow> Explosion_event list \<Rightarrow> Explosion_state \<times> bool
       \<Rightarrow> (Explosion_state \<times> bool) \<times> nat" where
  "Explosion_run props [] sq = (sq, 0)"
| "Explosion_run props (e # es) sq =
     (case Explosion_step props e sq of (sq', fired) \<Rightarrow>
      case Explosion_run props es sq' of (sq'', n) \<Rightarrow> (sq'', (if fired then 1 else 0) + n))"

text \<open>
  The wreckage pieces are rendered inside \<open><group position={position}>\<close>, each with
  \<open>startPosition = (0, 0, 0)\<close> and the \<open>groundY\<close> of the Explosion as it is. The group is
  translated only, so the world position of a piece is the position of the Explosion
  plus the position of the piece's own group.
\<close>

definition wreckage_startPosition :: Vector3 where
  "wreckage_startPosition = Vector3 0 0 0"

definition wreckage_groundY :: "Explosion_props \<Rightarrow> real" where
  "wreckage_groundY props = x_groundY props"

definition wreckage_world_position :: "Explosion_props \<Rightarrow> Vector3 \<Rightarrow> Vector3" where
  "wreckage_world_position props local_position = vec_add (x_position props) local_position"

text \<open>
  A wreckage piece of an Explosion, between frames and renders. A frame is the callback at
  \<open>(now, delta)\<close>. \<open>setHasLanded(true)\<close> queues an update, as above: the piece is paired
  with the queued value of \<open>hasLanded\<close>, and the callback sees the value of the last
  render. A render of the piece alone (after a change of its own state, such as a new
  smoke particle) passes the same \<open>startPosition\<close> object again. A render of the Explosion
  (\<open>WRender True\<close>) evaluates \<open>startPosition={new Vector3(0, 0, 0)}\<close> anew, and
  react-three-fiber copies a changed \<open>position\<close> prop into the group: the piece is back
  at its start position, with the velocity it had. Once \<open>hasLanded\<close> is rendered the
  group is gone and \<open>groupRef.current\<close> is \<open>null\<close>. The landing positions passed to
  \<open>onGroundHit\<close> are collected in order.
\<close>

datatype wreckage_event = WFrame int real | WRender bool

fun wreckage_render :: "bool \<Rightarrow> FallingWreckage_state \<times> bool \<Rightarrow> FallingWreckage_state \<times> bool" where
  "wreckage_render parent (s, queued) =
     (if queued then (s\<lparr> fw_hasLanded := True, fw_group := None \<rparr>, queued)
      else if parent then
        (case fw_group s of
           None \<Rightarrow> (s, queued)
         | Some grp \<Rightarrow>
             (s\<lparr> fw_group := Some (grp\<lparr> g_position := wreckage_startPosition \<rparr>) \<rparr>, queued))
      else (s, queued))"

fun wreckage_run ::
    "Explosion_props \<Rightarrow> wreckage_event list \<Rightarrow> rng \<Rightarrow> FallingWreckage_state \<times> bool
       \<Rightarrow> (FallingWreckage_state \<times> bool) \<times> Vector3 list \<times> rng" where
  "wreckage_run props [] g sq = (sq, [], g)"
| "wreckage_run props (WFrame now delta # es) g (s, queued) =
     (case FallingWreckage_frame (wreckage_groundY props) now delta g s of (s', hit, g') \<Rightarrow>
      case wreckage_run props es g' (s'\<lparr> fw_hasLanded := fw_hasLanded s \<rparr>, queued \<or> fw_hasLanded s')
        of (sq'', hits, g'') \<Rightarrow>
        (sq'', (case hit of None \<Rightarrow> [] | Some h \<Rightarrow> [h]) @ hits, g''))"
| "wreckage_run props (WRender parent # es) g sq =
     wreckage_run props es g (wreckage_render parent sq)"

section \<open>Camera shake\<close>

text \<open>
  The camera position can take the value of a division by \<open>duration\<close>, so its components
  are \<open>jsnum\<close>s. \<open>!startTime.current\<close> holds for \<open>null\<close> and for the timestamp \<open>0\<close>.
\<close>

datatype JVector3 = JVector3 (jx: jsnum) (jy: jsnum) (jz: jsnum)

record CameraShake_state =
  cs_startTime :: "int option"
  cs_originalPosition :: "JVector3 option"

definition CameraShake_mount :: CameraShake_state where
  "CameraShake_mount = \<lparr> cs_startTime = None, cs_originalPosition = None \<rparr>"

definition CameraShake_effect :: "real \<Rightarrow> int \<Rightarrow> JVector3 \<Rightarrow> CameraShake_state \<Rightarrow> CameraShake_state" where
  "CameraShake_effect intensity now camera_position s =
     (if intensity > 0
      then \<lparr> cs_startTime = Some now, cs_originalPosition = Some camera_position \<rparr>
      else s)"

definition randomSpread_js :: "jsnum \<Rightarrow> rng \<Rightarrow> jsnum \<times> rng" where
  "randomSpread_js spread g =
     (case Math_random g of (r, g') \<Rightarrow> (js_mul (Fin ((r - 0.5) * 2)) spread, g'))"

definition CameraShake_frame ::
    "real \<Rightarrow> real \<Rightarrow> int \<Rightarrow> rng \<Rightarrow> JVector3 \<times> CameraShake_state \<Rightarrow> (JVector3 \<times> CameraShake_state) \<times> rng" where
  "CameraShake_frame intensity duration_ms now g cs =
     (case cs of (camera_position, s) \<Rightarrow>
        case cs_startTime s of
          None \<Rightarrow> (cs, g)
        | Some st \<Rightarrow>
            if st = 0 then (cs, g)
            else
              (case cs_originalPosition s of
                 None \<Rightarrow> (cs, g)
               | Some original \<Rightarrow>
                   (let elapsed = now - st;
                        progress = js_div (real_of_int elapsed) duration_ms
                    in if js_ge1 progress
                       then ((original, s\<lparr> cs_startTime := None \<rparr>), g)
                       else
                         (let shake = js_mul (Fin intensity) (js_sub (Fin 1) progress)
                          in case randomSpread_js shake g of (sx, g1) \<Rightarrow>
                             case randomSpread_js shake g1 of (sy, g2) \<Rightarrow>
                               ((JVector3 (js_add (jx original) sx)
                                          (js_add (jy original) sy)
                                          (jz camera_position),
                                 s),
                                g2)))))"

section \<open>Sample inputs\<close>

definition demo_trigger :: trigger_config where
  "demo_trigger = \<lparr> t_position = Vector3 0 0 (-15), t_forwardVector = None,
     t_explosionClass = Some ''SMALL'', t_showWreckage = None, t_groundY = None \<rparr>"

definition small_props :: Explosion_props where
  "small_props = \<lparr> x_position = Vector3 0 0 0, x_forwardVector = Vector3 0 0 (-1),
     x_explosionClass = ''SMALL'', x_showWreckage = True, x_groundY = GROUND_Y \<rparr>"

definition core_particle :: particle_record where
  "core_particle = \<lparr> p_id = 0, p_direction = Vector3 1 0 0, p_speed = 12, p_size = 0.2,
     p_color = Some ''#ffffff'', p_lifetime = 1, p_type = ''core'' \<rparr>"

definition fire_particle :: particle_record where
  "fire_particle = \<lparr> p_id = 3, p_direction = Vector3 0 1 0, p_speed = 10, p_size = 0.4,
     p_color = Some ''#ff8800'', p_lifetime = 1, p_type = ''fire'' \<rparr>"

definition trail_smoke :: smoke_record where
  "trail_smoke = \<lparr> sm_id = 100.5, sm_position = Vector3 0 (-1) 0, sm_velocity = Vector3 1 1 0,
     sm_size = 0.5 \<rparr>"

definition demo_wreckage :: FallingWreckage_state where
  "demo_wreckage =
     fst (FallingWreckage_mount (Vector3 0 0 0) (Vector3 0 0 (-1)) (sconst (1/2)))"

definition demo_rng :: rng where
  "demo_rng = cycle [1/4, 1/2, 3/4]"

definition demo_shake :: CameraShake_state where
  "demo_shake = CameraShake_effect (1/4) 1000 (JVector3 (Fin 0) (Fin 5) (Fin 10)) CameraShake_mount"

definition high_props :: Explosion_props where
  "high_props = \<lparr> x_position = Vector3 0 10 0, x_forwardVector = Vector3 0 0 (-1),
     x_explosionClass = ''SMALL'', x_showWreckage = True, x_groundY = GROUND_Y \<rparr>"

definition low_props :: Explosion_props where
  "low_props = \<lparr> x_position = Vector3 0 (-3) 0, x_forwardVector = Vector3 0 0 (-1),
     x_explosionClass = ''SMALL'', x_showWreckage = True, x_groundY = GROUND_Y \<rparr>"

text \<open>
  Frames every 100 ms with a frame time of a tenth of a second. The piece renders after
  each frame (each frame emits a smoke particle); the Explosion renders after the frames
  at 200 ms (the flash ends), 500 ms (the shockwave rings end) and 800 ms (the particles
  whose lifetime is 0.75 s end).
\<close>

definition frames_to_800 :: "wreckage_event list" where
  "frames_to_800 =
     [WFrame 100 (1/10), WRender False, WFrame 200 (1/10), WRender True,
      WFrame 300 (1/10), WRender False, WFrame 400 (1/10), WRender False,
      WFrame 500 (1/10), WRender True,
      WFrame 600 (1/10), WRender False, WFrame 700 (1/10), WRender False,
      WFrame 800 (1/10)]"

definition frames_to_1100 :: "wreckage_event list" where
  "frames_to_1100 =
     frames_to_800 @
     [WRender True,
      WFrame 900 (1/10), WRender False, WFrame 1000 (1/10), WRender False,
      WFrame 1100 (1/10), WRender False]"

section \<open>Properties of the manager\<close>

lemma run_ops_ids:
  "explosionIdRef s + length (filter is_Trigger ops) \<le> 2 ^ 53 \<Longrightarrow>
   fst (run_ops ops s) = [explosionIdRef s ..< explosionIdRef s + length (filter is_Trigger ops)]"
proof (induction ops arbitrary: s)
  case Nil
  then show ?case by simp
next
  case (Cons a ops)
  show ?case
  proof (cases a)
    case (Trigger c)
    obtain s' where s': "triggerExplosion c s = (explosionIdRef s, s')"
      and ref: "explosionIdRef s' = js_incr (explosionIdRef s)"
      by (simp add: triggerExplosion_def Let_def)
    from Cons.prems Trigger have lt: "explosionIdRef s < 2 ^ 53" by simp
    then have ref': "explosionIdRef s' = Suc (explosionIdRef s)"
      using ref by (simp add: js_incr_def)
    from Cons.prems Trigger ref'
    have "explosionIdRef s' + length (filter is_Trigger ops) \<le> 2 ^ 53" by simp
    from Cons.IH [OF this] ref'
    have ih: "fst (run_ops ops s') =
        [Suc (explosionIdRef s) ..< Suc (explosionIdRef s) + length (filter is_Trigger ops)]"
      by simp
    have "[explosionIdRef s ..< explosionIdRef s + Suc (length (filter is_Trigger ops))] =
        explosionIdRef s #
        [Suc (explosionIdRef s) ..< Suc (explosionIdRef s) + length (filter is_Trigger ops)]"
      by (simp add: upt_rec)
    with ih s' Trigger show ?thesis
      by (simp add: split_def)
  next
    case (Remove i)
    with Cons.prems Cons.IH [of "removeExplosion i s"] show ?thesis
      by (simp add: removeExplosion_def)
  next
    case ClearAll
    with Cons.prems Cons.IH [of "clearAllExplosions s"] show ?thesis
      by (simp add: clearAllExplosions_def)
  qed
qed

text \<open>
  Claim C8. Starting from a fresh manager, for every sequence of trigger, remove and
  clear-all operations (with at most \<open>2^53\<close> triggers, the range in which a JavaScript
  counter counts exactly), the ids returned by the triggers are strictly increasing in
  call order, hence pairwise distinct, and there is one id for each trigger: removing
  explosions or clearing the active set never makes an id come back.
\<close>

theorem C8_trigger_ids_fresh:
  assumes "length (filter is_Trigger ops) \<le> 2 ^ 53"
  shows "sorted_wrt (<) (fst (run_ops ops Manager_init))
       \<and> distinct (fst (run_ops ops Manager_init))
       \<and> length (fst (run_ops ops Manager_init)) = length (filter is_Trigger ops)"
proof -
  have "fst (run_ops ops Manager_init) = [0 ..< length (filter is_Trigger ops)]"
    using run_ops_ids [of Manager_init ops] assms by (simp add: Manager_init_def)
  then show ?thesis by simp
qed

theorem C8_trigger_ids_fresh_witness:
  "length (filter is_Trigger [Trigger demo_trigger, Remove 0, Trigger demo_trigger, ClearAll,
       Trigger demo_trigger]) \<le> 2 ^ 53
   \<and> sorted_wrt (<) (fst (run_ops [Trigger demo_trigger, Remove 0, Trigger demo_trigger, ClearAll,
       Trigger demo_trigger] Manager_init))
   \<and> distinct (fst (run_ops [Trigger demo_trigger, Remove 0, Trigger demo_trigger, ClearAll,
       Trigger demo_trigger] Manager_init))
   \<and> length (fst (run_ops [Trigger demo_trigger, Remove 0, Trigger demo_trigger, ClearAll,
       Trigger demo_trigger] Manager_init)) = 3"
  using C8_trigger_ids_fresh [of "[Trigger demo_trigger, Remove 0, Trigger demo_trigger, ClearAll,
       Trigger demo_trigger]"]
  by simp

section \<open>Completion of an Explosion\<close>

text \<open>
  Claim C1, as the code has it. For every class name that yields a configuration (a key
  of the table, or a name that falls back to \<open>MEDIUM\<close>), a frame at time \<open>now\<close> marks the
  instance completed and invokes the completion callback exactly when the \<open>isComplete\<close>
  it sees is false and \<open>now - startTime\<close> is strictly greater than \<open>duration + 3000\<close>. The
  frame reads no child collection and changes none, so particles, shockwaves, wreckage
  and secondary or chain explosions may be live when it completes.
\<close>

theorem C1_completion_strictly_after_grace:
  assumes "class_config (x_explosionClass props) = Some config"
  shows "snd (Explosion_frame props now s) =
           (\<not> isComplete s \<and> now - startTime s > duration config + 3000)
       \<and> isComplete (fst (Explosion_frame props now s)) =
           (isComplete s \<or> now - startTime s > duration config + 3000)
       \<and> particles (fst (Explosion_frame props now s)) = particles s
       \<and> shockwaves (fst (Explosion_frame props now s)) = shockwaves s
       \<and> wreckage (fst (Explosion_frame props now s)) = wreckage s
       \<and> secondaryExplosions (fst (Explosion_frame props now s)) = secondaryExplosions s
       \<and> chainExplosions_state (fst (Explosion_frame props now s)) = chainExplosions_state s
       \<and> flash (fst (Explosion_frame props now s)) = flash s"
  using assms by (auto simp: Explosion_frame_def Let_def)

theorem C1_completion_strictly_after_grace_witness:
  "class_config (x_explosionClass small_props) = Some SMALL
   \<and> snd (Explosion_frame small_props 3801 (Explosion_mount 0))
   \<and> isComplete (fst (Explosion_frame small_props 3801 (Explosion_mount 0)))
   \<and> particles (fst (Explosion_frame small_props 3801 (Explosion_mount 0))) = []"
  using C1_completion_strictly_after_grace [of small_props SMALL 3801 "Explosion_mount 0"]
  by (simp add: small_props_def class_config_def CLASSES_def SMALL_def Explosion_mount_def)

text \<open>
  The claim as stated fails on the boundary: a \<open>SMALL\<close> instance (duration 800) created
  at time 0 and ticked at time 3800, where the elapsed time has reached
  \<open>duration + 3000\<close>, is not completed and its callback is not invoked. A tick at time
  3801 completes it.
\<close>

theorem C1_counterexample:
  "class_config (x_explosionClass small_props) = Some SMALL
   \<and> duration SMALL = 800
   \<and> 3800 - startTime (Explosion_mount 0) \<ge> duration SMALL + 3000
   \<and> \<not> isComplete (fst (Explosion_frame small_props 3800 (Explosion_mount 0)))
   \<and> \<not> snd (Explosion_frame small_props 3800 (Explosion_mount 0))
   \<and> isComplete (fst (Explosion_frame small_props 3801 (Explosion_mount 0)))"
  by (simp add: Explosion_frame_def Let_def small_props_def class_config_def CLASSES_def SMALL_def
      Explosion_mount_def)

text \<open>
  A class name that \<open>Object.prototype\<close> provides yields no configuration: the Explosion
  creates no particle and no wreckage, its shockwave scales are \<open>NaN\<close>, and no frame
  completes it.
\<close>

lemma Explosion_inherited_class:
  "class_config ''constructor'' = None
   \<and> particles (fst (Explosion_init (small_props\<lparr> x_explosionClass := ''constructor'' \<rparr>) g
        (Explosion_mount 0))) = []
   \<and> wreckage (fst (Explosion_init (small_props\<lparr> x_explosionClass := ''constructor'' \<rparr>) g
        (Explosion_mount 0))) = []
   \<and> map sw_scale (shockwaves (fst (Explosion_init (small_props\<lparr> x_explosionClass := ''constructor'' \<rparr>) g
        (Explosion_mount 0)))) = [NaN, NaN]
   \<and> \<not> snd (Explosion_frame (small_props\<lparr> x_explosionClass := ''constructor'' \<rparr>) now s)"
  by (simp add: class_config_def CLASSES_def Object_prototype_keys_def Explosion_init_def
      Explosion_frame_def small_props_def createShockwaves_def RING_COUNT_def upt_rec
      del: createParticles_loop.simps createWreckage_loop.simps createChains_loop.simps)

text \<open>
  Once a render has shown \<open>isComplete\<close> to the callbacks, no later event invokes the
  completion callback, and \<open>isComplete\<close> stays.
\<close>

lemma Explosion_frame_after_render:
  "isComplete s \<Longrightarrow> Explosion_frame props now s = (s, False)"
  by (simp add: Explosion_frame_def Let_def split: option.splits)

lemma Explosion_step_after_render:
  "isComplete s \<Longrightarrow>
     \<exists>s'. Explosion_step props e (s, True) = ((s', True), False) \<and> isComplete s'"
  by (cases e) (simp_all add: Explosion_frame_after_render)

lemma Explosion_run_after_render:
  "isComplete s \<Longrightarrow>
     snd (Explosion_run props es (s, True)) = 0
     \<and> isComplete (fst (fst (Explosion_run props es (s, True))))
     \<and> snd (fst (Explosion_run props es (s, True)))"
proof (induction es arbitrary: s)
  case Nil
  then show ?case by simp
next
  case (Cons e es)
  from Explosion_step_after_render [OF Cons.prems, of props e]
  obtain s' where st: "Explosion_step props e (s, True) = ((s', True), False)"
    and c: "isComplete s'"
    by blast
  from Cons.IH [OF c] st show ?case by simp
qed

text \<open>
  Claim C5 at two frames with no render between them. A \<open>SMALL\<close> Explosion created at
  time 0 has frames at 3900 ms and 3916 ms. The first frame calls \<open>setIsComplete(true)\<close>
  and the completion callback; the second still sees \<open>isComplete = false\<close>, the value
  of the last render, and invokes the completion callback again: two invocations. With a
  render between the two frames there is one. The queued \<open>isComplete\<close> is true after the
  run either way.
\<close>

theorem C5_stale_guard_fires_twice:
  "snd (Explosion_run small_props [Frame 3900, Frame 3916] (Explosion_mount 0, False)) = 2
   \<and> snd (fst (Explosion_run small_props [Frame 3900, Frame 3916] (Explosion_mount 0, False)))
   \<and> snd (Explosion_run small_props [Frame 3900, Render, Frame 3916] (Explosion_mount 0, False)) = 1
   \<and> snd (fst (Explosion_run small_props [Frame 3900, Render, Frame 3916] (Explosion_mount 0, False)))"
  by (simp add: Explosion_frame_def Let_def small_props_def class_config_def CLASSES_def SMALL_def
      Explosion_mount_def)

section \<open>Particles in a frame\<close>

text \<open>
  Claim C10. For a particle whose type is none of \<open>fire\<close>, \<open>spark\<close> and \<open>smoke\<close>
  (a \<open>core\<close> particle), a frame in which the mesh is mounted and \<open>progress >= 1\<close> does not
  hold leaves the velocity and the start time as they were and does not invoke the
  completion callback; the position advances by \<open>velocity * delta\<close>. Only the mesh
  (position, scale, opacity) changes.
\<close>

theorem C10_core_velocity_unchanged:
  assumes "p_type p \<noteq> ''fire''" and "p_type p \<noteq> ''spark''" and "p_type p \<noteq> ''smoke''"
    and "ep_mesh s = Some m"
    and "\<not> js_ge1 (js_div (real_of_int (now - ep_startTime s) / 1000) (p_lifetime p))"
  shows "ep_velocity (fst (ExplosionParticle_frame p now delta s)) = ep_velocity s
       \<and> ep_startTime (fst (ExplosionParticle_frame p now delta s)) = ep_startTime s
       \<and> map_option m_position (ep_mesh (fst (ExplosionParticle_frame p now delta s))) =
           Some (vec_add (m_position m) (multiplyScalar (ep_velocity s) delta))
       \<and> \<not> snd (ExplosionParticle_frame p now delta s)"
  using assms by (simp add: ExplosionParticle_frame_def Let_def)

theorem C10_core_velocity_unchanged_witness:
  "p_type core_particle \<noteq> ''fire'' \<and> p_type core_particle \<noteq> ''spark''
   \<and> p_type core_particle \<noteq> ''smoke''
   \<and> ep_mesh (ExplosionParticle_mount (Vector3 0 0 0) core_particle 0) \<noteq> None
   \<and> \<not> js_ge1 (js_div (real_of_int (500 - ep_startTime (ExplosionParticle_mount (Vector3 0 0 0) core_particle 0)) / 1000)
          (p_lifetime core_particle))
   \<and> ep_velocity (fst (ExplosionParticle_frame core_particle 500 (1/50)
          (ExplosionParticle_mount (Vector3 0 0 0) core_particle 0))) = Vector3 12 0 0
   \<and> map_option m_position (ep_mesh (fst (ExplosionParticle_frame core_particle 500 (1/50)
          (ExplosionParticle_mount (Vector3 0 0 0) core_particle 0)))) = Some (Vector3 (6/25) 0 0)"
  using C10_core_velocity_unchanged [of core_particle
      "ExplosionParticle_mount (Vector3 0 0 0) core_particle 0"
      "\<lparr> m_position = Vector3 0 0 0, m_scale = Fin 1, m_opacity = Fin 1 \<rparr>" 500 "1/50"]
  by (simp add: core_particle_def ExplosionParticle_mount_def multiplyScalar_def vec_add_def)

text \<open>
  Claim C7, as the code has it. The frame callback has no guard for a lifetime that is not
  positive: it divides by it. For a mounted particle with \<open>lifetime \<le> 0\<close>, a frame at or
  after the creation time invokes the completion callback exactly when the lifetime is
  \<open>0\<close> and the elapsed time is positive (\<open>progress\<close> is \<open>Infinity\<close>). With a negative
  lifetime \<open>progress\<close> is never positive and no frame invokes the callback.
\<close>

theorem C7_nonpositive_lifetime:
  assumes "p_lifetime p \<le> 0" and "ep_mesh s = Some m" and "ep_startTime s \<le> now"
  shows "snd (ExplosionParticle_frame p now delta s) = (p_lifetime p = 0 \<and> ep_startTime s < now)"
proof (cases "p_lifetime p = 0")
  case True
  with assms show ?thesis
    by (auto simp: ExplosionParticle_frame_def Let_def)
next
  case False
  with assms have neg: "p_lifetime p < 0" by simp
  define e where "e = real_of_int (now - ep_startTime s) / 1000"
  from assms(3) have "0 \<le> e" by (simp add: e_def)
  with neg have "\<not> js_ge1 (js_div e (p_lifetime p))" by simp
  then have "\<not> snd (ExplosionParticle_frame p now delta s)"
    using assms(2) unfolding ExplosionParticle_frame_def Let_def e_def by simp
  with False show ?thesis by simp
qed

theorem C7_nonpositive_lifetime_witness:
  "p_lifetime (core_particle\<lparr> p_lifetime := 0 \<rparr>) \<le> 0
   \<and> ep_mesh (ExplosionParticle_mount (Vector3 0 0 0) (core_particle\<lparr> p_lifetime := 0 \<rparr>) 0) \<noteq> None
   \<and> ep_startTime (ExplosionParticle_mount (Vector3 0 0 0) (core_particle\<lparr> p_lifetime := 0 \<rparr>) 0) \<le> 16
   \<and> snd (ExplosionParticle_frame (core_particle\<lparr> p_lifetime := 0 \<rparr>) 16 (2/125)
        (ExplosionParticle_mount (Vector3 0 0 0) (core_particle\<lparr> p_lifetime := 0 \<rparr>) 0))"
  using C7_nonpositive_lifetime [of "core_particle\<lparr> p_lifetime := 0 \<rparr>"
      "ExplosionParticle_mount (Vector3 0 0 0) (core_particle\<lparr> p_lifetime := 0 \<rparr>) 0"
      "\<lparr> m_position = Vector3 0 0 0, m_scale = Fin 1, m_opacity = Fin 1 \<rparr>" 16 "2/125"]
  by (simp add: core_particle_def ExplosionParticle_mount_def)

text \<open>
  The claim as stated fails for a negative lifetime: a particle with lifetime \<open>-1\<close>,
  created at time 0 and ticked at time 16, does not invoke the completion callback.
\<close>

theorem C7_counterexample:
  "p_lifetime (core_particle\<lparr> p_lifetime := - 1 \<rparr>) \<le> 0
   \<and> \<not> snd (ExplosionParticle_frame (core_particle\<lparr> p_lifetime := - 1 \<rparr>) 16 (2/125)
        (ExplosionParticle_mount (Vector3 0 0 0) (core_particle\<lparr> p_lifetime := - 1 \<rparr>) 0))"
  by (simp add: ExplosionParticle_frame_def Let_def core_particle_def ExplosionParticle_mount_def)

section \<open>Motion of particles, smoke and wreckage\<close>

lemma FallingWreckage_mount_demo:
  "FallingWreckage_mount (Vector3 0 0 0) (Vector3 0 0 (-1)) (sconst (1/2)) =
     (\<lparr> fw_group = Some \<lparr> g_position = Vector3 0 0 0, g_rotation = Vector3 0 0 0 \<rparr>,
        fw_smokeParticles = [],
        fw_hasLanded = False,
        fw_physics = \<lparr> ph_velocity = Vector3 0 0 (- 11/2),
                       ph_rotationSpeed = Vector3 5 5 5,
                       ph_lastSmokeTime = 0 \<rparr> \<rparr>, sconst (1/2))"
  by (simp add: FallingWreckage_mount_def createRandomDirection_def randomSpread_def randomRange_def
      Math_random_def normalize_def vec_length_def cross_def Let_def multiplyScalar_def vec_add_def
      SPREAD_ANGLE_def)

text \<open>
  Claim C4, as the code has it. In a frame that does not complete, a fire, spark or smoke
  particle and a smoke-trail particle first advance the position by the old velocity
  times \<open>delta\<close> and then adjust the velocity: scale it by the decay factor, then add the
  vertical bias (fire 0.96 and \<open>+2 delta\<close>, spark 0.98 and \<open>-15 delta\<close>, smoke 0.92 and
  \<open>+1 delta\<close>, smoke trail 0.95 and \<open>+0.8 delta\<close>). A wreckage piece that has not landed
  does it in the other order: gravity is applied to the velocity first (\<open>y -= 15 delta\<close>,
  no decay), and the position then advances by the new velocity times \<open>delta\<close>.
\<close>

theorem C4_motion_update_order:
  assumes "p_type p \<in> {''fire'', ''spark'', ''smoke''}"
    and "ep_mesh s = Some m"
    and "\<not> js_ge1 (js_div (real_of_int (now - ep_startTime s) / 1000) (p_lifetime p))"
    and "sp_mesh t = Some m2"
    and "\<not> js_ge1 (js_div (real_of_int (now - sp_startTime t) / 1000) lifetime)"
    and "fw_group w = Some grp"
    and "\<not> fw_hasLanded w"
  shows "map_option m_position (ep_mesh (fst (ExplosionParticle_frame p now delta s))) =
           Some (vec_add (m_position m) (multiplyScalar (ep_velocity s) delta))
       \<and> ep_velocity (fst (ExplosionParticle_frame p now delta s)) =
           (let v = ep_velocity s;
                decay = (if p_type p = ''fire'' then 0.96 else if p_type p = ''spark'' then 0.98 else 0.92);
                bias = (if p_type p = ''fire'' then 2 else if p_type p = ''spark'' then - 15 else 1)
            in Vector3 (vec_x v * decay) (vec_y v * decay + bias * delta) (vec_z v * decay))
       \<and> map_option m_position (sp_mesh (fst (SmokeParticle_frame psize lifetime now delta t))) =
           Some (vec_add (m_position m2) (multiplyScalar (sp_vel t) delta))
       \<and> sp_vel (fst (SmokeParticle_frame psize lifetime now delta t)) =
           Vector3 (vec_x (sp_vel t) * 0.95) (vec_y (sp_vel t) * 0.95 + 0.8 * delta)
                   (vec_z (sp_vel t) * 0.95)
       \<and> ph_velocity (fw_physics (fst (FallingWreckage_frame groundY now delta g w))) =
           Vector3 (vec_x (ph_velocity (fw_physics w)))
                   (vec_y (ph_velocity (fw_physics w)) - 15 * delta)
                   (vec_z (ph_velocity (fw_physics w)))
       \<and> map_option g_position (fw_group (fst (FallingWreckage_frame groundY now delta g w))) =
           Some (vec_add (g_position grp)
                   (multiplyScalar
                      (Vector3 (vec_x (ph_velocity (fw_physics w)))
                               (vec_y (ph_velocity (fw_physics w)) - 15 * delta)
                               (vec_z (ph_velocity (fw_physics w))))
                      delta))"
proof -
  have particle: "map_option m_position (ep_mesh (fst (ExplosionParticle_frame p now delta s))) =
           Some (vec_add (m_position m) (multiplyScalar (ep_velocity s) delta))
       \<and> ep_velocity (fst (ExplosionParticle_frame p now delta s)) =
           (let v = ep_velocity s;
                decay = (if p_type p = ''fire'' then 0.96 else if p_type p = ''spark'' then 0.98 else 0.92);
                bias = (if p_type p = ''fire'' then 2 else if p_type p = ''spark'' then - 15 else 1)
            in Vector3 (vec_x v * decay) (vec_y v * decay + bias * delta) (vec_z v * decay))"
    using assms(1-3)
    by (auto simp: ExplosionParticle_frame_def Let_def multiplyScalar_def set_y_def)
  have trail: "map_option m_position (sp_mesh (fst (SmokeParticle_frame psize lifetime now delta t))) =
           Some (vec_add (m_position m2) (multiplyScalar (sp_vel t) delta))
       \<and> sp_vel (fst (SmokeParticle_frame psize lifetime now delta t)) =
           Vector3 (vec_x (sp_vel t) * 0.95) (vec_y (sp_vel t) * 0.95 + 0.8 * delta)
                   (vec_z (sp_vel t) * 0.95)"
    using assms(4,5)
    by (simp add: SmokeParticle_frame_def Let_def multiplyScalar_def set_y_def)
  have wreck: "ph_velocity (fw_physics (fst (FallingWreckage_frame groundY now delta g w))) =
           Vector3 (vec_x (ph_velocity (fw_physics w)))
                   (vec_y (ph_velocity (fw_physics w)) - 15 * delta)
                   (vec_z (ph_velocity (fw_physics w)))
       \<and> map_option g_position (fw_group (fst (FallingWreckage_frame groundY now delta g w))) =
           Some (vec_add (g_position grp)
                   (multiplyScalar
                      (Vector3 (vec_x (ph_velocity (fw_physics w)))
                               (vec_y (ph_velocity (fw_physics w)) - 15 * delta)
                               (vec_z (ph_velocity (fw_physics w))))
                      delta))"
    using assms(6,7)
    by (simp add: FallingWreckage_frame_def Let_def split_def set_y_def GRAVITY_def)
  from particle trail wreck show ?thesis by simp
qed

theorem C4_motion_update_order_witness:
  "p_type fire_particle \<in> {''fire'', ''spark'', ''smoke''}
   \<and> ep_mesh (ExplosionParticle_mount (Vector3 0 0 0) fire_particle 0) \<noteq> None
   \<and> \<not> js_ge1 (js_div (real_of_int (500 - ep_startTime (ExplosionParticle_mount (Vector3 0 0 0) fire_particle 0)) / 1000)
          (p_lifetime fire_particle))
   \<and> sp_mesh (SmokeParticle_mount trail_smoke 0) \<noteq> None
   \<and> \<not> js_ge1 (js_div (real_of_int (500 - sp_startTime (SmokeParticle_mount trail_smoke 0)) / 1000) 1)
   \<and> fw_group demo_wreckage \<noteq> None
   \<and> \<not> fw_hasLanded demo_wreckage
   \<and> map_option m_position (ep_mesh (fst (ExplosionParticle_frame fire_particle 500 (1/10)
          (ExplosionParticle_mount (Vector3 0 0 0) fire_particle 0)))) = Some (Vector3 0 1 0)
   \<and> ep_velocity (fst (ExplosionParticle_frame fire_particle 500 (1/10)
          (ExplosionParticle_mount (Vector3 0 0 0) fire_particle 0))) = Vector3 0 (49/5) 0
   \<and> map_option m_position (sp_mesh (fst (SmokeParticle_frame (1/2) 1 500 (1/10)
          (SmokeParticle_mount trail_smoke 0)))) = Some (Vector3 (1/10) (- 9/10) 0)
   \<and> sp_vel (fst (SmokeParticle_frame (1/2) 1 500 (1/10) (SmokeParticle_mount trail_smoke 0))) =
        Vector3 (19/20) (103/100) 0
   \<and> ph_velocity (fw_physics (fst (FallingWreckage_frame (-5) 500 (1/10) (sconst (1/2)) demo_wreckage))) =
        Vector3 0 (- 3/2) (- 11/2)
   \<and> map_option g_position (fw_group (fst (FallingWreckage_frame (-5) 500 (1/10) (sconst (1/2)) demo_wreckage))) =
        Some (Vector3 0 (- 3/20) (- 11/20))"
  using C4_motion_update_order [of fire_particle "ExplosionParticle_mount (Vector3 0 0 0) fire_particle 0"
      "\<lparr> m_position = Vector3 0 0 0, m_scale = Fin 1, m_opacity = Fin 1 \<rparr>" 500
      "SmokeParticle_mount trail_smoke 0"
      "\<lparr> m_position = Vector3 0 (-1) 0, m_scale = Fin 1, m_opacity = Fin 0.6 \<rparr>" 1
      demo_wreckage "\<lparr> g_position = Vector3 0 0 0, g_rotation = Vector3 0 0 0 \<rparr>"
      "1/10" "1/2" "-5" "sconst (1/2)"]
  by (simp add: fire_particle_def trail_smoke_def demo_wreckage_def FallingWreckage_mount_demo
      ExplosionParticle_mount_def SmokeParticle_mount_def multiplyScalar_def vec_add_def)

text \<open>
  The claim as stated fails for wreckage: after one frame of a tenth of a second the
  position of the sample piece is not its old position plus its old velocity times
  \<open>delta\<close>; gravity has already acted on it.
\<close>

theorem C4_counterexample:
  "fw_group demo_wreckage = Some \<lparr> g_position = Vector3 0 0 0, g_rotation = Vector3 0 0 0 \<rparr>
   \<and> \<not> fw_hasLanded demo_wreckage
   \<and> map_option g_position (fw_group (fst (FallingWreckage_frame (-5) 500 (1/10) (sconst (1/2)) demo_wreckage)))
       \<noteq> Some (vec_add (Vector3 0 0 0) (multiplyScalar (ph_velocity (fw_physics demo_wreckage)) (1/10)))"
  by (simp add: demo_wreckage_def FallingWreckage_mount_demo FallingWreckage_frame_def Let_def
      split_def set_y_def GRAVITY_def multiplyScalar_def vec_add_def)

section \<open>Landing of wreckage\<close>

lemma FallingWreckage_frame_airborne:
  assumes "real_of_int (now - lastSmoke) > 30"
  shows "FallingWreckage_frame groundY now delta g
      \<lparr> fw_group = Some \<lparr> g_position = Vector3 px py pz, g_rotation = rot \<rparr>,
        fw_smokeParticles = smoke, fw_hasLanded = False,
        fw_physics = \<lparr> ph_velocity = Vector3 vx vy vz, ph_rotationSpeed = Vector3 ax ay az,
                       ph_lastSmokeTime = lastSmoke \<rparr> \<rparr> =
     (\<lparr> fw_group = Some \<lparr> g_position = Vector3 (px + vx * delta) (py + (vy - 15 * delta) * delta)
                                           (pz + vz * delta),
                           g_rotation = Vector3 (vec_x rot + ax * delta) (vec_y rot + ay * delta)
                                           (vec_z rot + az * delta) \<rparr>,
        fw_smokeParticles = smoke @
          [\<lparr> sm_id = real_of_int now + g !! 3,
             sm_position = Vector3 (px + vx * delta) (py + (vy - 15 * delta) * delta) (pz + vz * delta),
             sm_velocity = Vector3 ((g !! 0 - 0.5) * 2 * 1) (g !! 1 * (1.5 - 0.5) + 0.5)
                                   ((g !! 2 - 0.5) * 2 * 1),
             sm_size = g !! 4 * (0.6 - 0.3) + 0.3 \<rparr>],
        fw_hasLanded = (py + (vy - 15 * delta) * delta \<le> groundY),
        fw_physics = \<lparr> ph_velocity = Vector3 vx (vy - 15 * delta) vz,
                       ph_rotationSpeed = Vector3 ax ay az,
                       ph_lastSmokeTime = now \<rparr> \<rparr>,
      (if py + (vy - 15 * delta) * delta \<le> groundY
       then Some (Vector3 (px + vx * delta) (py + (vy - 15 * delta) * delta) (pz + vz * delta))
       else None),
      sdrop 5 g)"
  using assms
  by (simp add: FallingWreckage_frame_def Let_def split_def set_y_def GRAVITY_def SMOKE_EMIT_RATE_def
      multiplyScalar_def vec_add_def randomSpread_def randomRange_def Math_random_def
      eval_nat_numeral)

text \<open>
  Claim C2 at an Explosion that is not at the origin. The Explosion is at height 10 and
  the ground plane at \<open>groundY = -5\<close>; the piece starts at the Explosion (world height 10)
  with velocity \<open>(0, 0, -5.5)\<close>. The renders of the Explosion after the frames at 200,
  500 and 800 ms put the piece back at its start. After the frame at 1100 ms it has not
  landed; the frame at 1200 ms calls \<open>setHasLanded(true)\<close> and invokes \<open>onGroundHit\<close>
  once, with the position \<open>(0, -6.3, -2.2)\<close> in the frame of the Explosion. The world
  height of the piece is then \<open>3.7\<close>, above the ground plane: the test compares the
  height relative to the Explosion with \<open>groundY\<close>.
\<close>

theorem C2_wreckage_lands_above_ground:
  "fst (FallingWreckage_mount wreckage_startPosition (x_forwardVector high_props) (sconst (1/2))) = demo_wreckage
   \<and> \<not> snd (fst (wreckage_run high_props frames_to_1100 (sconst (1/2)) (demo_wreckage, False)))
   \<and> fst (snd (wreckage_run high_props frames_to_1100 (sconst (1/2)) (demo_wreckage, False))) = []
   \<and> snd (fst (wreckage_run high_props (frames_to_1100 @ [WFrame 1200 (1/10)]) (sconst (1/2))
        (demo_wreckage, False)))
   \<and> fst (snd (wreckage_run high_props (frames_to_1100 @ [WFrame 1200 (1/10)]) (sconst (1/2))
        (demo_wreckage, False))) = [Vector3 0 (- 63/10) (- 11/5)]
   \<and> wreckage_world_position high_props (Vector3 0 (- 63/10) (- 11/5)) = Vector3 0 (37/10) (- 11/5)
   \<and> x_groundY high_props = - 5"
  by (simp add: demo_wreckage_def FallingWreckage_mount_demo wreckage_startPosition_def
      frames_to_1100_def frames_to_800_def
      high_props_def wreckage_groundY_def wreckage_world_position_def GROUND_Y_def
      FallingWreckage_frame_airborne vec_add_def)

text \<open>
  The other direction, for an Explosion at height \<open>-3\<close>, above the same ground plane:
  after the frame at 800 ms the piece is at world height \<open>-6.15\<close>, below the ground
  plane, and has not landed; no callback has been invoked.
\<close>

lemma wreckage_falls_through_ground:
  "\<not> snd (fst (wreckage_run low_props frames_to_800 (sconst (1/2)) (demo_wreckage, False)))
   \<and> fst (snd (wreckage_run low_props frames_to_800 (sconst (1/2)) (demo_wreckage, False))) = []
   \<and> map_option (\<lambda>grp. vec_y (wreckage_world_position low_props (g_position grp)))
        (fw_group (fst (fst (wreckage_run low_props frames_to_800 (sconst (1/2))
           (demo_wreckage, False))))) = Some (- 123/20)
   \<and> x_groundY low_props = - 5"
  by (simp add: demo_wreckage_def FallingWreckage_mount_demo wreckage_startPosition_def
      frames_to_800_def
      low_props_def wreckage_groundY_def wreckage_world_position_def GROUND_Y_def
      FallingWreckage_frame_airborne vec_add_def)

section \<open>Initialisation of an Explosion\<close>

lemma createParticle_rng: "snd (createParticle n i ident g) = sdrop 7 g"
  by (simp add: createParticle_def randomSpread_def randomRange_def Math_random_def Let_def
      split_def eval_nat_numeral)

lemma createParticle_type: "p_type (fst (createParticle n i ident g)) = particle_type i n"
  by (simp add: createParticle_def Let_def split_def)

lemma createParticles_loop_types:
  "map p_type (fst (createParticles_loop n i ident g acc)) =
     map p_type acc @ map (\<lambda>k. particle_type k n) [i ..< n]"
proof (induction n i ident g acc rule: createParticles_loop.induct)
  case (1 n i ident g acc)
  show ?case
  proof (cases "i < n")
    case True
    obtain p g' where c: "createParticle n i ident g = (p, g')"
      by (cases "createParticle n i ident g")
    then have t: "p_type p = particle_type i n"
      using createParticle_type [of n i ident g] by simp
    from True c have "createParticles_loop n i ident g acc =
        createParticles_loop n (Suc i) (js_incr ident) g' (acc @ [p])"
      by (subst createParticles_loop.simps) simp
    with "1.IH" [OF True c [symmetric]] t True show ?thesis
      by (simp add: upt_conv_Cons del: createParticles_loop.simps)
  next
    case False
    then show ?thesis
      by (subst createParticles_loop.simps) simp
  qed
qed

lemma createParticles_loop_rng:
  "snd (snd (createParticles_loop n i ident g acc)) = sdrop (7 * (n - i)) g"
proof (induction n i ident g acc rule: createParticles_loop.induct)
  case (1 n i ident g acc)
  show ?case
  proof (cases "i < n")
    case True
    obtain p g' where c: "createParticle n i ident g = (p, g')"
      by (cases "createParticle n i ident g")
    then have g': "g' = sdrop 7 g"
      using createParticle_rng [of n i ident g] by simp
    from True c have "createParticles_loop n i ident g acc =
        createParticles_loop n (Suc i) (js_incr ident) g' (acc @ [p])"
      by (subst createParticles_loop.simps) simp
    moreover from True have "7 + 7 * (n - Suc i) = 7 * (n - i)" by simp
    ultimately show ?thesis
      using "1.IH" [OF True c [symmetric]] g'
      by (simp del: createParticles_loop.simps)
  next
    case False
    then show ?thesis
      by (subst createParticles_loop.simps) simp
  qed
qed

lemma particle_type_cases:
  "particle_type i n =
     (if 5 * i < n then ''core'' else if 5 * i < 3 * n then ''fire''
      else if 5 * i < 4 * n then ''spark'' else ''smoke'')"
proof -
  have a: "real i < real n * 0.2 \<longleftrightarrow> 5 * i < n"
  proof -
    have "real i < real n * 0.2 \<longleftrightarrow> real (5 * i) < real n" by (simp add: mult.commute)
    then show ?thesis by (simp only: of_nat_less_iff)
  qed
  have b: "real i < real n * 0.6 \<longleftrightarrow> 5 * i < 3 * n"
  proof -
    have "real i < real n * 0.6 \<longleftrightarrow> real (5 * i) < real (3 * n)" by (simp add: mult.commute)
    then show ?thesis by (simp only: of_nat_less_iff)
  qed
  have c: "real i < real n * 0.8 \<longleftrightarrow> 5 * i < 4 * n"
  proof -
    have "real i < real n * 0.8 \<longleftrightarrow> real (5 * i) < real (4 * n)" by (simp add: mult.commute)
    then show ?thesis by (simp only: of_nat_less_iff)
  qed
  show ?thesis
    unfolding particle_type_def a b c by simp
qed

lemma particle_types_fifths:
  "map (\<lambda>i. particle_type i (5 * k)) [0 ..< 5 * k] =
     replicate k ''core'' @ replicate (2 * k) ''fire'' @ replicate k ''spark'' @ replicate k ''smoke''"
proof (rule nth_equalityI)
  show "length (map (\<lambda>i. particle_type i (5 * k)) [0 ..< 5 * k]) =
      length (replicate k ''core'' @ replicate (2 * k) ''fire'' @ replicate k ''spark'' @
        replicate k ''smoke'')"
    by simp
next
  fix i
  assume "i < length (map (\<lambda>i. particle_type i (5 * k)) [0 ..< 5 * k])"
  then have i: "i < 5 * k" by simp
  then show "map (\<lambda>i. particle_type i (5 * k)) [0 ..< 5 * k] ! i =
      (replicate k ''core'' @ replicate (2 * k) ''fire'' @ replicate k ''spark'' @
        replicate k ''smoke'') ! i"
    by (auto simp: particle_type_cases nth_append)
qed

lemma class_config_cases:
  "class_config c = Some config \<Longrightarrow>
     config = SMALL \<or> config = MEDIUM \<or> config = LARGE \<or> config = BOSS"
  by (auto simp: class_config_def CLASSES_def split: if_splits)

lemma particleCount_fifths:
  "class_config c = Some config \<Longrightarrow> particleCount config = 5 * (particleCount config div 5)"
  using class_config_cases [of c config]
  by (auto simp: SMALL_def MEDIUM_def LARGE_def BOSS_def)

lemma Explosion_init_particles:
  "class_config (x_explosionClass props) = Some config \<Longrightarrow>
   particles (fst (Explosion_init props g s)) =
     fst (createParticles_loop (particleCount config) 0 (particleIdCounter s) g [])"
  by (simp add: Explosion_init_def Let_def split_def del: createParticles_loop.simps)

text \<open>
  Claim C6. For every Explosion whose class name yields a configuration (a key of the
  table, or a name that falls back to \<open>MEDIUM\<close>), the particle batch has
  \<open>particleCount\<close> particles whose types are, in index order, a fifth \<open>core\<close>, two fifths
  \<open>fire\<close>, a fifth \<open>spark\<close> and a fifth \<open>smoke\<close>; for \<open>SMALL\<close> these are 3 core, 6 fire,
  3 spark and 3 smoke particles.
\<close>

theorem C6_particle_batch:
  assumes "class_config (x_explosionClass props) = Some config"
  shows "length (particles (fst (Explosion_init props g s))) = particleCount config
   \<and> map p_type (particles (fst (Explosion_init props g s))) =
       replicate (particleCount config div 5) ''core'' @
       replicate (2 * (particleCount config div 5)) ''fire'' @
       replicate (particleCount config div 5) ''spark'' @
       replicate (particleCount config div 5) ''smoke''
   \<and> map p_type (particles (fst (Explosion_init (props\<lparr> x_explosionClass := ''SMALL'' \<rparr>) g s))) =
       replicate 3 ''core'' @ replicate 6 ''fire'' @ replicate 3 ''spark'' @ replicate 3 ''smoke''"
proof -
  define n where "n = particleCount config"
  have n: "n = 5 * (n div 5)"
    unfolding n_def using assms by (rule particleCount_fifths)
  have types: "map p_type (particles (fst (Explosion_init props g s))) =
      map (\<lambda>k. particle_type k n) [0 ..< n]"
    unfolding Explosion_init_particles [OF assms] n_def [symmetric]
    by (simp add: createParticles_loop_types del: createParticles_loop.simps)
  have "map (\<lambda>k. particle_type k n) [0 ..< n] =
      replicate (n div 5) ''core'' @ replicate (2 * (n div 5)) ''fire'' @
      replicate (n div 5) ''spark'' @ replicate (n div 5) ''smoke''"
    using particle_types_fifths [of "n div 5"] n by simp
  with types have t: "map p_type (particles (fst (Explosion_init props g s))) =
      replicate (n div 5) ''core'' @ replicate (2 * (n div 5)) ''fire'' @
      replicate (n div 5) ''spark'' @ replicate (n div 5) ''smoke''"
    by simp
  have "length (map p_type (particles (fst (Explosion_init props g s)))) = n"
    unfolding types by simp
  then have l: "length (particles (fst (Explosion_init props g s))) = n" by simp
  have small: "class_config (x_explosionClass (props\<lparr> x_explosionClass := ''SMALL'' \<rparr>)) = Some SMALL"
    by (simp add: class_config_def CLASSES_def)
  have "map p_type (particles (fst (Explosion_init (props\<lparr> x_explosionClass := ''SMALL'' \<rparr>) g s))) =
      map (\<lambda>k. particle_type k (5 * 3)) [0 ..< 5 * 3]"
    unfolding Explosion_init_particles [OF small]
    by (simp add: createParticles_loop_types SMALL_def del: createParticles_loop.simps)
  then have sm: "map p_type (particles (fst (Explosion_init (props\<lparr> x_explosionClass := ''SMALL'' \<rparr>) g s))) =
      replicate 3 ''core'' @ replicate 6 ''fire'' @ replicate 3 ''spark'' @ replicate 3 ''smoke''"
    unfolding particle_types_fifths by simp
  from l t sm show ?thesis
    unfolding n_def by simp
qed

theorem C6_particle_batch_witness:
  "class_config (x_explosionClass high_props) = Some SMALL
   \<and> length (particles (fst (Explosion_init high_props demo_rng (Explosion_mount 0)))) = 15
   \<and> map p_type (particles (fst (Explosion_init high_props demo_rng (Explosion_mount 0)))) =
       [''core'', ''core'', ''core'',
        ''fire'', ''fire'', ''fire'', ''fire'', ''fire'', ''fire'',
        ''spark'', ''spark'', ''spark'',
        ''smoke'', ''smoke'', ''smoke'']"
proof -
  have c: "class_config (x_explosionClass high_props) = Some SMALL"
    by (simp add: high_props_def class_config_def CLASSES_def)
  have r: "replicate 3 x = [x, x, x]" "replicate 6 x = [x, x, x, x, x, x]" for x :: string
    by (simp_all add: eval_nat_numeral)
  have p: "particleCount SMALL = 15" by (simp add: SMALL_def)
  from C6_particle_batch [OF c, of demo_rng "Explosion_mount 0"] c show ?thesis
    unfolding p by (simp add: r)
qed

lemma scale_map_spec:
  "scale_map ss g =
     (map2 (\<lambda>s r. s * (r * 0.6 + 0.7)) ss (stake (length ss) g), sdrop (length ss) g)"
proof (induction ss arbitrary: g)
  case Nil
  then show ?case by simp
next
  case (Cons s ss)
  have "randomRange (1 - scaleVariation) (1 + scaleVariation) g = (shd g * 0.6 + 0.7, stl g)"
    by (simp add: randomRange_def Math_random_def scaleVariation_def)
  with Cons.IH [of "stl g"] show ?case by simp
qed

lemma createWreckage_loop_spec:
  "createWreckage_loop config i g acc =
     (acc @ map (\<lambda>k. \<lparr> w_id = k,
                       w_scale = map2 (\<lambda>s r. s * (r * 0.6 + 0.7)) (wreckageScale config)
                         (stake (length (wreckageScale config))
                            (sdrop (length (wreckageScale config) * (k - i)) g)) \<rparr>)
              [i ..< wreckagePieces config],
      sdrop (length (wreckageScale config) * (wreckagePieces config - i)) g)"
proof (induction config i g acc rule: createWreckage_loop.induct)
  case (1 config i g acc)
  define L where "L = length (wreckageScale config)"
  define n where "n = wreckagePieces config"
  show ?case
  proof (cases "i < wreckagePieces config")
    case True
    define sc where "sc = map2 (\<lambda>s r. s * (r * 0.6 + 0.7)) (wreckageScale config) (stake L g)"
    have sm: "scale_map (wreckageScale config) g = (sc, sdrop L g)"
      by (simp add: scale_map_spec sc_def L_def)
    have step: "createWreckage_loop config i g acc =
        createWreckage_loop config (Suc i) (sdrop L g) (acc @ [\<lparr> w_id = i, w_scale = sc \<rparr>])"
      using True sm by (subst createWreckage_loop.simps) simp
    have ih: "createWreckage_loop config (Suc i) (sdrop L g) (acc @ [\<lparr> w_id = i, w_scale = sc \<rparr>]) =
        ((acc @ [\<lparr> w_id = i, w_scale = sc \<rparr>]) @
          map (\<lambda>k. \<lparr> w_id = k,
                     w_scale = map2 (\<lambda>s r. s * (r * 0.6 + 0.7)) (wreckageScale config)
                       (stake L (sdrop (L * (k - Suc i)) (sdrop L g))) \<rparr>)
            [Suc i ..< n],
         sdrop (L * (n - Suc i)) (sdrop L g))"
      using "1.IH" [OF True sm [symmetric]] by (simp only: L_def n_def)
    have a: "\<And>k. k \<in> set [Suc i ..< n] \<Longrightarrow>
        sdrop (L * (k - Suc i)) (sdrop L g) = sdrop (L * (k - i)) g"
    proof -
      fix k assume "k \<in> set [Suc i ..< n]"
      then have "L + L * (k - Suc i) = L * (k - i)"
        by (simp add: mult_Suc_right [symmetric] Suc_diff_Suc del: mult_Suc_right)
      then show "sdrop (L * (k - Suc i)) (sdrop L g) = sdrop (L * (k - i)) g" by simp
    qed
    have b: "sdrop (L * (n - Suc i)) (sdrop L g) = sdrop (L * (n - i)) g"
    proof -
      from True have "L + L * (n - Suc i) = L * (n - i)"
        by (simp add: mult_Suc_right [symmetric] Suc_diff_Suc n_def del: mult_Suc_right)
      then show ?thesis by simp
    qed
    have c: "map (\<lambda>k. \<lparr> w_id = k,
                     w_scale = map2 (\<lambda>s r. s * (r * 0.6 + 0.7)) (wreckageScale config)
                       (stake L (sdrop (L * (k - Suc i)) (sdrop L g))) \<rparr>) [Suc i ..< n] =
        map (\<lambda>k. \<lparr> w_id = k,
                     w_scale = map2 (\<lambda>s r. s * (r * 0.6 + 0.7)) (wreckageScale config)
                       (stake L (sdrop (L * (k - i)) g)) \<rparr>) [Suc i ..< n]"
      using a by (simp cong: map_cong)
    have d: "[i ..< n] = i # [Suc i ..< n]"
      using True by (simp add: upt_conv_Cons n_def)
    show ?thesis
      unfolding step ih b c
      unfolding L_def [symmetric] n_def [symmetric] d
      by (simp add: sc_def)
  next
    case False
    then show ?thesis
      by (subst createWreckage_loop.simps) simp
  qed
qed

lemma list_of_length_3:
  assumes "length xs = 3"
  shows "\<exists>a b c. xs = [a, b, c]"
proof -
  from assms obtain a ys where 1: "xs = a # ys" and "length ys = 2"
    by (cases xs) auto
  then obtain b zs where 2: "ys = b # zs" and "length zs = 1"
    by (cases ys) auto
  then obtain c where 3: "zs = [c]"
    by (cases zs) auto
  from 1 2 3 show ?thesis by simp
qed

lemma stake_3: "stake 3 s = [s !! 0, s !! 1, s !! 2]"
  by (simp add: numeral_3_eq_3 numeral_2_eq_2)

lemma wreckageScale_length:
  "class_config c = Some config \<Longrightarrow> length (wreckageScale config) = 3"
  using class_config_cases [of c config]
  by (auto simp: SMALL_def MEDIUM_def LARGE_def BOSS_def)

lemma Explosion_init_wreckage:
  assumes "x_showWreckage props"
    and "class_config (x_explosionClass props) = Some config"
  shows "wreckage (fst (Explosion_init props g s)) =
     map (\<lambda>k. \<lparr> w_id = k,
                w_scale = map2 (\<lambda>s r. s * (r * 0.6 + 0.7)) (wreckageScale config)
                  (stake 3 (sdrop (7 * particleCount config + 3 * k) g)) \<rparr>)
       [0 ..< wreckagePieces config]"
proof -
  obtain ps ident g1 where p: "createParticles_loop (particleCount config) 0 (particleIdCounter s) g [] =
      (ps, ident, g1)"
    by (cases "createParticles_loop (particleCount config) 0 (particleIdCounter s) g []")
  have g1: "g1 = sdrop (7 * particleCount config) g"
    using createParticles_loop_rng [of "particleCount config" 0 "particleIdCounter s" g "[]"] p
    by simp
  have "wreckage (fst (Explosion_init props g s)) = fst (createWreckage_loop config 0 g1 [])"
    using assms p
    by (simp add: Explosion_init_def Let_def split_def
        del: createParticles_loop.simps createWreckage_loop.simps createChains_loop.simps)
  then show ?thesis
    unfolding createWreckage_loop_spec g1
    by (simp add: wreckageScale_length [OF assms(2)] add.commute)
qed

text \<open>
  Claim C3, as the code has it. With \<open>showWreckage\<close>, and a class name that yields a
  configuration, the initialisation creates \<open>wreckagePieces\<close> wreckage records, and each
  component of the scale of piece \<open>k\<close> is the component of \<open>wreckageScale\<close> times a factor
  of its own, drawn for that axis by \<open>randomRange(0.7, 1.3)\<close>: three consecutive draws
  for each piece, after the seven draws of each particle.
\<close>

theorem C3_wreckage_batch:
  assumes "x_showWreckage props"
    and "class_config (x_explosionClass props) = Some config"
    and "k < wreckagePieces config"
  shows "length (wreckage (fst (Explosion_init props g s))) = wreckagePieces config
       \<and> w_scale (wreckage (fst (Explosion_init props g s)) ! k) =
           [wreckageScale config ! 0 *
              fst (randomRange 0.7 1.3 (sdrop (7 * particleCount config + 3 * k) g)),
            wreckageScale config ! 1 *
              fst (randomRange 0.7 1.3 (sdrop (7 * particleCount config + 3 * k + 1) g)),
            wreckageScale config ! 2 *
              fst (randomRange 0.7 1.3 (sdrop (7 * particleCount config + 3 * k + 2) g))]"
proof -
  define d where "d = 7 * particleCount config + 3 * k"
  obtain a b c where sc: "wreckageScale config = [a, b, c]"
    using list_of_length_3 [OF wreckageScale_length [OF assms(2)]] by blast
  have st: "stake 3 (sdrop d g) = [g !! d, g !! (d + 1), g !! (d + 2)]"
    unfolding stake_3 by (simp only: sdrop_snth add_0_right)
  have rr: "\<And>j h. fst (randomRange 0.7 1.3 (sdrop j h)) = h !! j * 0.6 + 0.7"
    by (simp add: randomRange_def Math_random_def)
  show ?thesis
    unfolding Explosion_init_wreckage [OF assms(1,2)]
    using assms(3) by (simp add: sc st rr d_def [symmetric] add.assoc)
qed

theorem C3_wreckage_batch_witness:
  "x_showWreckage small_props
   \<and> class_config (x_explosionClass small_props) = Some SMALL
   \<and> 0 < wreckagePieces SMALL
   \<and> length (wreckage (fst (Explosion_init small_props demo_rng (Explosion_mount 0)))) = 1
   \<and> w_scale (wreckage (fst (Explosion_init small_props demo_rng (Explosion_mount 0))) ! 0) =
       [2/5 * (17/20), 1/4 * 1, 3/5 * (23/20)]"
proof -
  have a: "sdrop 105 demo_rng = demo_rng"
    by (simp add: demo_rng_def)
  have c: "stake 3 demo_rng = [1/4, 1/2, 3/4]"
    using stake_cycle_eq [of "[1/4, 1/2, 3/4 :: real]"] by (simp add: demo_rng_def)
  have d: "stake 3 demo_rng = [demo_rng !! 0, demo_rng !! 1, demo_rng !! 2]"
    by (rule stake_3)
  from c d have e: "demo_rng !! 0 = 1/4" "demo_rng !! 1 = 1/2" "demo_rng !! 2 = 3/4"
    by simp_all
  have f: "\<And>j. fst (randomRange 0.7 1.3 (sdrop (105 + j) demo_rng)) = demo_rng !! j * 0.6 + 0.7"
    using a by (simp add: randomRange_def Math_random_def sdrop_add [symmetric] sdrop_snth del: sdrop_add)
  have cfg: "class_config (x_explosionClass small_props) = Some SMALL"
    by (simp add: small_props_def class_config_def CLASSES_def)
  have sw: "x_showWreckage small_props" by (simp add: small_props_def)
  have k: "0 < wreckagePieces SMALL" by (simp add: SMALL_def)
  from C3_wreckage_batch [OF sw cfg k, of demo_rng "Explosion_mount 0"] f [of 0] f [of 1] f [of 2] e
    sw cfg k
  show ?thesis
    by (simp add: SMALL_def)
qed

text \<open>
  The claim as stated fails: with draws \<open>1/4, 1/2, 3/4\<close> for the three axes, the scale of
  the piece of a \<open>SMALL\<close> Explosion is \<open>wreckageScale\<close> times no single factor.
\<close>

theorem C3_counterexample:
  "\<not> (\<exists>f. w_scale (wreckage (fst (Explosion_init small_props demo_rng (Explosion_mount 0))) ! 0) =
        map (\<lambda>s. s * f) (wreckageScale SMALL))"
proof -
  have a: "sdrop 105 demo_rng = demo_rng"
    by (simp add: demo_rng_def)
  have c: "stake 3 demo_rng = [1/4, 1/2, 3/4]"
    using stake_cycle_eq [of "[1/4, 1/2, 3/4 :: real]"] by (simp add: demo_rng_def)
  have cfg: "class_config (x_explosionClass small_props) = Some SMALL"
    by (simp add: small_props_def class_config_def CLASSES_def)
  have sw: "x_showWreckage small_props" by (simp add: small_props_def)
  from Explosion_init_wreckage [OF sw cfg, of demo_rng "Explosion_mount 0"]
  have "w_scale (wreckage (fst (Explosion_init small_props demo_rng (Explosion_mount 0))) ! 0) =
      [0.4 * (1/4 * 0.6 + 0.7), 0.25 * (1/2 * 0.6 + 0.7), 0.6 * (3/4 * 0.6 + 0.7)]"
    by (simp add: SMALL_def a c)
  then show ?thesis
    by (simp add: SMALL_def)
qed

section \<open>Camera shake in a frame\<close>

lemma randomSpread_js_bound:
  assumes "0 \<le> shd g" and "shd g < 1" and "0 \<le> m"
  shows "\<exists>d. fst (randomSpread_js (Fin m) g) = Fin d \<and> \<bar>d\<bar> \<le> m"
proof -
  have a: "\<bar>(shd g - 0.5) * 2\<bar> \<le> 1" using assms(1,2) by (simp add: abs_le_iff)
  have "\<bar>(shd g - 0.5) * 2 * m\<bar> = \<bar>(shd g - 0.5) * 2\<bar> * m"
    using assms(3) by (simp add: abs_mult)
  also have "\<dots> \<le> m"
    using a assms(3) by (simp add: mult_left_le_one_le)
  finally show ?thesis
    by (simp add: randomSpread_js_def Math_random_def)
qed

text \<open>
  Claim C9. While a shake is active (start time and base position captured, finite base
  \<open>x\<close> and \<open>y\<close>), a frame with \<open>progress < 1\<close> sets the camera's \<open>x\<close> and \<open>y\<close> to the
  base coordinate plus \<open>randomSpread(intensity * (1 - progress))\<close>, each with a draw of
  its own, and leaves the camera's \<open>z\<close> as it is; a frame with \<open>progress \<ge> 1\<close> sets the
  camera position to the captured base position and clears the start time, after which
  frames change nothing. A spread of magnitude \<open>m\<close> is at most \<open>m\<close> in absolute value.
\<close>

theorem C9_camera_shake:
  assumes "cs_startTime s = Some st" and "st \<noteq> 0"
    and "cs_originalPosition s = Some (JVector3 (Fin bx) (Fin by) bz)"
    and "duration_ms \<noteq> 0"
  shows "CameraShake_frame intensity duration_ms now g (cam, s) =
      (if real_of_int (now - st) / duration_ms \<ge> 1
       then ((JVector3 (Fin bx) (Fin by) bz, s\<lparr> cs_startTime := None \<rparr>), g)
       else ((JVector3
                (Fin (bx + (shd g - 0.5) * 2 * (intensity * (1 - real_of_int (now - st) / duration_ms))))
                (Fin (by + (shd (stl g) - 0.5) * 2 * (intensity * (1 - real_of_int (now - st) / duration_ms))))
                (jz cam), s),
             stl (stl g)))
    \<and> CameraShake_frame intensity duration_ms now' g' (cam', s\<lparr> cs_startTime := None \<rparr>) =
        ((cam', s\<lparr> cs_startTime := None \<rparr>), g')
    \<and> (0 \<le> shd g \<and> shd g < 1 \<and> 0 \<le> m \<longrightarrow>
        (\<exists>d. fst (randomSpread_js (Fin m) g) = Fin d \<and> \<bar>d\<bar> \<le> m))"
proof -
  have 1: "CameraShake_frame intensity duration_ms now g (cam, s) =
      (if real_of_int (now - st) / duration_ms \<ge> 1
       then ((JVector3 (Fin bx) (Fin by) bz, s\<lparr> cs_startTime := None \<rparr>), g)
       else ((JVector3
                (Fin (bx + (shd g - 0.5) * 2 * (intensity * (1 - real_of_int (now - st) / duration_ms))))
                (Fin (by + (shd (stl g) - 0.5) * 2 * (intensity * (1 - real_of_int (now - st) / duration_ms))))
                (jz cam), s),
             stl (stl g)))"
    using assms
    by (simp add: CameraShake_frame_def Let_def randomSpread_js_def Math_random_def js_sub_def)
  have 2: "CameraShake_frame intensity duration_ms now' g' (cam', s\<lparr> cs_startTime := None \<rparr>) =
        ((cam', s\<lparr> cs_startTime := None \<rparr>), g')"
    by (simp add: CameraShake_frame_def)
  from 1 2 randomSpread_js_bound [of g m] show ?thesis by blast
qed

theorem C9_camera_shake_witness:
  "cs_startTime demo_shake = Some 1000 \<and> (1000 :: int) \<noteq> 0
   \<and> cs_originalPosition demo_shake = Some (JVector3 (Fin 0) (Fin 5) (Fin 10))
   \<and> (500 :: real) \<noteq> 0
   \<and> CameraShake_frame (1/4) 500 1250 (sconst (3/4)) (JVector3 (Fin 1) (Fin 4) (Fin 12), demo_shake) =
       ((JVector3 (Fin (1/16)) (Fin (81/16)) (Fin 12), demo_shake), sconst (3/4))
   \<and> CameraShake_frame (1/4) 500 1500 (sconst (3/4)) (JVector3 (Fin (1/16)) (Fin (81/16)) (Fin 12), demo_shake) =
       ((JVector3 (Fin 0) (Fin 5) (Fin 10), demo_shake\<lparr> cs_startTime := None \<rparr>), sconst (3/4))
   \<and> CameraShake_frame (1/4) 500 1516 (sconst (3/4))
         (JVector3 (Fin 0) (Fin 5) (Fin 10), demo_shake\<lparr> cs_startTime := None \<rparr>) =
       ((JVector3 (Fin 0) (Fin 5) (Fin 10), demo_shake\<lparr> cs_startTime := None \<rparr>), sconst (3/4))
   \<and> 0 \<le> shd (sconst (3/4 :: real)) \<and> shd (sconst (3/4 :: real)) < 1 \<and> (0 :: real) \<le> 1/8
   \<and> (\<exists>d. fst (randomSpread_js (Fin (1/8)) (sconst (3/4))) = Fin d \<and> \<bar>d\<bar> \<le> 1/8)"
  using C9_camera_shake [of demo_shake 1000 0 5 "Fin 10" 500 "1/4" 1250 "sconst (3/4)"
      "JVector3 (Fin 1) (Fin 4) (Fin 12)" 1516 "sconst (3/4)" "JVector3 (Fin 0) (Fin 5) (Fin 10)" "1/8"]
    C9_camera_shake [of demo_shake 1000 0 5 "Fin 10" 500 "1/4" 1500 "sconst (3/4)"
      "JVector3 (Fin (1/16)) (Fin (81/16)) (Fin 12)" 1516 "sconst (3/4)" "JVector3 (Fin 0) (Fin 5) (Fin 10)" "1/8"]
  by (simp add: demo_shake_def CameraShake_effect_def CameraShake_mount_def)

end
